theory Spec2Isabelle
  imports Main "HOL-Library.AList"
begin

section \<open>Data model of the asset reconciliation sensor\<close>

text \<open>
  The development embeds \<^verbatim>\<open>dagster/_core/definitions/asset_reconciliation_sensor.py\<close>.
  Classes that the module imports but that are not part of the sources at hand
  (the asset graph, the instance queryer, partition definitions and subsets, run
  requests, backfills) appear as records of the methods the module calls on them,
  so that every function below is the source function with these collaborators as
  arguments.

  An \<^verbatim>\<open>AssetKey\<close> is a hierarchical name: the list of its path components.
  Points in time (\<^verbatim>\<open>datetime\<close>) are integers counting microseconds, the resolution
  of \<^verbatim>\<open>datetime.timedelta\<close>; a duration is a difference of two such integers.
\<close>

type_synonym asset_key = "string list"

type_synonym datetime = int

type_synonym timedelta = int

datatype asset_key_partition_key =
  AssetKeyPartitionKey (asset_key: asset_key) (partition_key: "string option")

datatype error = CheckError | AttributeError | TypeError | ValueError

definition timedelta_resolution :: timedelta where
  "timedelta_resolution = 1"

definition timedelta_days :: "int \<Rightarrow> timedelta" where
  "timedelta_days d = d * 86400000000"

text \<open>Python truthiness of an \<^verbatim>\<open>Optional[int]\<close> and of an \<^verbatim>\<open>Optional[str]\<close>:
  \<^verbatim>\<open>None\<close>, \<^verbatim>\<open>0\<close> and the empty string are false.\<close>

definition truthy_int :: "int option \<Rightarrow> bool" where
  "truthy_int x = (case x of None \<Rightarrow> False | Some n \<Rightarrow> n \<noteq> 0)"

definition truthy_str :: "string option \<Rightarrow> bool" where
  "truthy_str x = (case x of None \<Rightarrow> False | Some s \<Rightarrow> s \<noteq> [])"

text \<open>\<^verbatim>\<open>a or b\<close> on two optional integers.\<close>

definition or_int :: "int option \<Rightarrow> int option \<Rightarrow> int option" where
  "or_int a b = (if truthy_int a then a else b)"

subsection \<open>Partition subsets\<close>

text \<open>
  Modelled from the spec: \<^verbatim>\<open>PartitionsSubset\<close> (its class is not among the sources) is
  the set of partition keys it holds; \<^verbatim>\<open>with_partition_keys\<close> merges keys into the
  subset by set union, and the empty subset of any partitions definition holds no key.
\<close>

type_synonym partitions_subset = "string set"

definition with_partition_keys :: "partitions_subset \<Rightarrow> string set \<Rightarrow> partitions_subset" where
  "with_partition_keys s partition_keys = s \<union> partition_keys"

definition empty_subset :: "'pd \<Rightarrow> partitions_subset" where
  "empty_subset partitions_def = {}"

subsection \<open>Time windows and partitions definitions\<close>

text \<open>
  \<^verbatim>\<open>TimeWindow\<close> is the half-open interval \<^verbatim>\<open>[start, end)\<close>. Of a
  \<^verbatim>\<open>TimeWindowPartitionsDefinition\<close> (not among the sources) the module calls four
  methods, which are the fields of the record; every other partitions definition is
  known by its partition keys, given the store of dynamic partitions.
\<close>

datatype time_window = TimeWindow (window_start: datetime) (window_end: datetime)

type_synonym dynamic_partitions_store = "string \<Rightarrow> string list"

record time_window_partitions_definition =
  get_last_partition_window :: "datetime \<Rightarrow> time_window option"
  get_first_partition_window :: "datetime \<Rightarrow> time_window option"
  time_window_for_partition_key :: "string \<Rightarrow> time_window"
  get_partition_keys_in_time_window :: "time_window \<Rightarrow> string list"

datatype partitions_definition =
  TimeWindowPartitionsDefinition time_window_partitions_definition
| OtherPartitionsDefinition "dynamic_partitions_store \<Rightarrow> string list"

subsection \<open>Run requests and the asset graph\<close>

text \<open>
  Of a \<^verbatim>\<open>FreshnessPolicy\<close> the module reads the maximum lag as a \<^verbatim>\<open>timedelta\<close> and the
  cron schedule with its time zone. Of a \<^verbatim>\<open>RunRequest\<close> it reads the asset selection, the
  partition key and the tags. The asset graph is the record of the \<^verbatim>\<open>AssetGraph\<close> methods
  the module calls; the methods that take the instance queryer use it as the store of
  dynamic partitions, and the sets that the module iterates over are lists.
\<close>

record freshness_policy =
  maximum_lag_delta :: timedelta
  cron_schedule :: "string option"
  cron_schedule_timezone :: "string option"

record run_request =
  asset_selection :: "asset_key list"
  run_partition_key :: "string option"
  tags :: "(string \<times> string) list"

record asset_graph =
  has_non_source_parents :: "asset_key \<Rightarrow> bool"
  get_partitions_def :: "asset_key \<Rightarrow> partitions_definition option"
  have_same_partitioning :: "asset_key \<Rightarrow> asset_key \<Rightarrow> bool"
  get_parents_partitions ::
    "dynamic_partitions_store \<Rightarrow> asset_key \<Rightarrow> string option \<Rightarrow> asset_key_partition_key list"
  get_children_partitions ::
    "dynamic_partitions_store \<Rightarrow> asset_key \<Rightarrow> string option \<Rightarrow> asset_key_partition_key list"
  is_source :: "asset_key \<Rightarrow> bool"
  is_partitioned :: "asset_key \<Rightarrow> bool"
  get_parents :: "asset_key \<Rightarrow> asset_key list"
  get_required_multi_asset_keys :: "asset_key \<Rightarrow> asset_key list"
  get_downstream_freshness_policies :: "asset_key \<Rightarrow> freshness_policy list"
  toposort_asset_keys :: "asset_key list list"

subsection \<open>The cursor\<close>

record asset_reconciliation_cursor =
  latest_storage_id :: "int option"
  materialized_or_requested_root_asset_keys :: "asset_key set"
  materialized_or_requested_root_partitions_by_asset_key :: "asset_key \<rightharpoonup> partitions_subset"

definition empty :: asset_reconciliation_cursor where
  "empty = \<lparr> latest_storage_id = None,
             materialized_or_requested_root_asset_keys = {},
             materialized_or_requested_root_partitions_by_asset_key = Map.empty \<rparr>"

text \<open>Reading a \<^verbatim>\<open>defaultdict(set)\<close>: a missing key reads as the empty set.\<close>

definition get_or_empty :: "(asset_key \<rightharpoonup> string set) \<Rightarrow> asset_key \<Rightarrow> string set" where
  "get_or_empty d k = (case d k of None \<Rightarrow> {} | Some s \<Rightarrow> s)"

text \<open>
  The first loop of \<^verbatim>\<open>with_updates\<close>: every requested asset without non-source parents
  is filed under its partition key when the run request has a (truthy) one, and among
  the non-partitioned roots otherwise. The state is the pair
  \<^verbatim>\<open>(requested_root_partitions_by_asset_key, requested_non_partitioned_root_assets)\<close>.
\<close>

definition add_requested ::
  "asset_graph \<Rightarrow> run_request \<Rightarrow> asset_key \<Rightarrow>
   (asset_key \<rightharpoonup> string set) \<times> asset_key set \<Rightarrow> (asset_key \<rightharpoonup> string set) \<times> asset_key set" where
  "add_requested asset_graph rr k acc =
     (if \<not> has_non_source_parents asset_graph k then
        (if truthy_str (run_partition_key rr)
         then ((fst acc)(k \<mapsto> insert (the (run_partition_key rr)) (get_or_empty (fst acc) k)), snd acc)
         else (fst acc, insert k (snd acc)))
      else acc)"

definition requested_roots ::
  "asset_graph \<Rightarrow> run_request list \<Rightarrow>
   (asset_key \<rightharpoonup> string set) \<times> asset_key set" where
  "requested_roots asset_graph run_requests =
     fold (\<lambda>rr acc. fold (add_requested asset_graph rr) (asset_selection rr) acc)
       run_requests (Map.empty, {})"

text \<open>
  The second loop: for every key of either mapping the prior subset (the empty subset of
  the asset's partitions definition when the cursor has none) is extended by the newly
  materialized and the requested partitions. Asking \<^verbatim>\<open>None\<close> for its empty subset is
  Python's \<^verbatim>\<open>AttributeError\<close>.
\<close>

definition partitions_def_missing ::
  "asset_graph \<Rightarrow> (asset_key \<rightharpoonup> partitions_subset) \<Rightarrow>
   (asset_key \<rightharpoonup> string set) \<Rightarrow> (asset_key \<rightharpoonup> string set) \<Rightarrow> bool" where
  "partitions_def_missing asset_graph prior newly requested =
     (\<exists>k \<in> dom newly \<union> dom requested. prior k = None \<and> get_partitions_def asset_graph k = None)"

definition merge_root_partitions ::
  "asset_graph \<Rightarrow> (asset_key \<rightharpoonup> partitions_subset) \<Rightarrow>
   (asset_key \<rightharpoonup> string set) \<Rightarrow> (asset_key \<rightharpoonup> string set) \<Rightarrow>
   error + (asset_key \<rightharpoonup> partitions_subset)" where
  "merge_root_partitions asset_graph prior newly requested =
     (if partitions_def_missing asset_graph prior newly requested
      then Inl AttributeError
      else Inr (\<lambda>k. if k \<in> dom newly \<union> dom requested
                     then Some (with_partition_keys
                            (case prior k of
                               None \<Rightarrow> empty_subset (the (get_partitions_def asset_graph k))
                             | Some s \<Rightarrow> s)
                            (get_or_empty newly k \<union> get_or_empty requested k))
                     else prior k))"

definition with_updates ::
  "asset_reconciliation_cursor \<Rightarrow> int option \<Rightarrow> run_request list \<Rightarrow> asset_key set \<Rightarrow>
   (asset_key \<rightharpoonup> string set) \<Rightarrow> asset_graph \<Rightarrow>
   error + asset_reconciliation_cursor" where
  "with_updates self new_latest_storage_id run_requests newly_materialized_root_asset_keys
       newly_materialized_root_partitions_by_asset_key asset_graph =
     (let requested = requested_roots asset_graph run_requests
      in case merge_root_partitions asset_graph
                (materialized_or_requested_root_partitions_by_asset_key self)
                newly_materialized_root_partitions_by_asset_key (fst requested) of
           Inl e \<Rightarrow> Inl e
         | Inr result_partitions \<Rightarrow>
             if truthy_int new_latest_storage_id \<and> truthy_int (latest_storage_id self)
                \<and> \<not> (the new_latest_storage_id \<ge> the (latest_storage_id self))
             then Inl CheckError
             else Inr \<lparr> latest_storage_id = or_int new_latest_storage_id (latest_storage_id self),
                        materialized_or_requested_root_asset_keys =
                          materialized_or_requested_root_asset_keys self
                          \<union> newly_materialized_root_asset_keys \<union> snd requested,
                        materialized_or_requested_root_partitions_by_asset_key = result_partitions \<rparr>)"

text \<open>The updates of successive ticks, applied in order; the first error ends the run.\<close>

record cursor_update =
  update_storage_id :: "int option"
  update_run_requests :: "run_request list"
  update_root_asset_keys :: "asset_key set"
  update_root_partitions :: "asset_key \<rightharpoonup> string set"
  update_graph :: asset_graph

fun with_updates_sequence ::
  "asset_reconciliation_cursor \<Rightarrow> cursor_update list \<Rightarrow> error + asset_reconciliation_cursor" where
  "with_updates_sequence c [] = Inr c"
| "with_updates_sequence c (u # us) =
     (case with_updates c (update_storage_id u) (update_run_requests u) (update_root_asset_keys u)
             (update_root_partitions u) (update_graph u) of
        Inl e \<Rightarrow> Inl e
      | Inr c' \<Rightarrow> with_updates_sequence c' us)"


section \<open>The instance: event records and backfills\<close>

text \<open>
  Of an event log record the module reads the storage id, the run id and the partition
  key. \<^verbatim>\<open>get_latest_materialization_record\<close> is called with an asset key (\<open>Inl\<close>) and
  with an asset partition (\<open>Inr\<close>).
\<close>

record event_log_record =
  storage_id :: int
  run_id :: string
  record_partition_key :: "string option"

datatype bulk_action_status = REQUESTED | COMPLETED | FAILED | CANCELED | CANCELING

text \<open>
  Modelled from the spec: the backfill store lists the backfills, each with its status
  and its target units; \<^verbatim>\<open>instance.get_backfills(status=s)\<close> lists those in status \<open>s\<close>.
  The serialized asset backfill data (\<^verbatim>\<open>AssetBackfillData\<close> is not among the sources) is
  represented by the target subset that \<^verbatim>\<open>AssetBackfillData.from_serialized\<close> reads from
  it, and an \<^verbatim>\<open>AssetGraphSubset\<close> by the set of its asset partitions.
\<close>

record partition_backfill =
  status :: bulk_action_status
  is_asset_backfill :: bool
  serialized_asset_backfill_data :: "asset_key_partition_key set option"

record dagster_instance =
  backfills :: "partition_backfill list"

definition get_backfills :: "dagster_instance \<Rightarrow> bulk_action_status \<Rightarrow> partition_backfill list" where
  "get_backfills inst s = filter (\<lambda>backfill. status backfill = s) (backfills inst)"

record instance_queryer =
  queryer_instance :: dagster_instance
  get_dynamic_partitions :: dynamic_partitions_store
  is_reconciled :: "asset_key_partition_key \<Rightarrow> asset_graph \<Rightarrow> bool"
  get_latest_materialization_record ::
    "asset_key + asset_key_partition_key \<Rightarrow> int option \<Rightarrow> event_log_record option"
  is_asset_planned_for_run :: "string \<Rightarrow> asset_key_partition_key \<Rightarrow> bool"
  get_materialized_partitions :: "asset_key \<Rightarrow> int option \<Rightarrow> string list"

text \<open>A loop whose body may raise: the first error ends it.\<close>

fun fold_result :: "('a \<Rightarrow> 's \<Rightarrow> error + 's) \<Rightarrow> 'a list \<Rightarrow> 's \<Rightarrow> error + 's" where
  "fold_result f [] s = Inr s"
| "fold_result f (x # xs) s = (case f x s of Inl e \<Rightarrow> Inl e | Inr s' \<Rightarrow> fold_result f xs s')"

definition get_active_backfill_target_asset_graph_subset ::
  "dagster_instance \<Rightarrow> asset_graph \<Rightarrow> error + asset_key_partition_key set" where
  "get_active_backfill_target_asset_graph_subset inst asset_graph =
     (let asset_backfills = filter is_asset_backfill (get_backfills inst REQUESTED)
      in fold_result
           (\<lambda>asset_backfill result.
              case serialized_asset_backfill_data asset_backfill of
                None \<Rightarrow> Inl CheckError
              | Some target_subset \<Rightarrow> Inr (result \<union> target_subset))
           asset_backfills {})"

section \<open>The propagation staleness detector\<close>

text \<open>
  An \<^verbatim>\<open>AssetSelection\<close> (not among the sources) is consulted through three resolutions
  against the asset graph: the selection itself, the selection with its direct parents
  (\<^verbatim>\<open>upstream(depth=1)\<close>), and its root assets (\<^verbatim>\<open>target & AssetSelection.all().sources()\<close>).
  The two that are iterated are lists, in the order of iteration.
\<close>

record resolved_asset_selection =
  target_asset_keys :: "asset_key set"
  target_parent_asset_keys :: "asset_key list"
  target_root_asset_keys :: "asset_key list"

text \<open>The body of the innermost loop of the scan of a partitioned parent.\<close>

definition scan_child ::
  "instance_queryer \<Rightarrow> int option \<Rightarrow> asset_key set \<Rightarrow> (asset_key_partition_key \<Rightarrow> bool) \<Rightarrow>
   asset_key \<Rightarrow> string \<Rightarrow> asset_key_partition_key \<Rightarrow> asset_key_partition_key set \<Rightarrow>
   error + asset_key_partition_key set" where
  "scan_child instance_queryer latest_id targets can_reconcile_fn key pk child result =
     (if asset_key child \<notin> targets then Inr result
      else if \<not> can_reconcile_fn child then Inr result
      else if Some pk \<noteq> partition_key child then Inr (insert child result)
      else case get_latest_materialization_record instance_queryer
                  (Inr (AssetKeyPartitionKey key (Some pk))) latest_id of
             None \<Rightarrow> Inl CheckError
           | Some latest_partition_record \<Rightarrow>
               if \<not> is_asset_planned_for_run instance_queryer (run_id latest_partition_record) child
               then Inr (insert child result)
               else Inr result)"

definition scan_partitions ::
  "instance_queryer \<Rightarrow> int option \<Rightarrow> asset_key set \<Rightarrow> asset_graph \<Rightarrow>
   (asset_key_partition_key \<Rightarrow> bool) \<Rightarrow> asset_key \<Rightarrow> asset_key_partition_key set \<Rightarrow>
   error + asset_key_partition_key set" where
  "scan_partitions instance_queryer latest_id targets asset_graph can_reconcile_fn key result =
     fold_result
       (\<lambda>pk. fold_result (scan_child instance_queryer latest_id targets can_reconcile_fn key pk)
                (get_children_partitions asset_graph (get_dynamic_partitions instance_queryer)
                   key (Some pk)))
       (get_materialized_partitions instance_queryer key latest_id) result"

text \<open>The body of the loop over the parents of the target selection; the state is the
  pair \<^verbatim>\<open>(result_asset_partitions, result_latest_storage_id)\<close>.\<close>

definition scan_parent ::
  "instance_queryer \<Rightarrow> int option \<Rightarrow> asset_key set \<Rightarrow> asset_graph \<Rightarrow>
   (asset_key_partition_key \<Rightarrow> bool) \<Rightarrow> asset_key \<Rightarrow>
   asset_key_partition_key set \<times> int option \<Rightarrow> error + asset_key_partition_key set \<times> int option" where
  "scan_parent instance_queryer latest_id targets asset_graph can_reconcile_fn key acc =
     (if is_source asset_graph key then Inr acc
      else case get_latest_materialization_record instance_queryer (Inl key) latest_id of
        None \<Rightarrow> Inr acc
      | Some latest_record \<Rightarrow>
          (let result = fst acc \<union> set (filter
                 (\<lambda>child. asset_key child \<in> targets
                    \<and> \<not> is_asset_planned_for_run instance_queryer (run_id latest_record) child)
                 (get_children_partitions asset_graph (get_dynamic_partitions instance_queryer)
                    key (record_partition_key latest_record)));
               result_latest_storage_id =
                 (if snd acc = None \<or> storage_id latest_record > the (snd acc)
                  then Some (storage_id latest_record) else snd acc)
           in if is_partitioned asset_graph key
              then (case scan_partitions instance_queryer latest_id targets asset_graph
                           can_reconcile_fn key result of
                      Inl e \<Rightarrow> Inl e
                    | Inr result' \<Rightarrow> Inr (result', result_latest_storage_id))
              else Inr (result, result_latest_storage_id)))"

definition find_parent_materialized_asset_partitions ::
  "instance_queryer \<Rightarrow> int option \<Rightarrow> resolved_asset_selection \<Rightarrow> asset_graph \<Rightarrow>
   (asset_key_partition_key \<Rightarrow> bool) \<Rightarrow> error + asset_key_partition_key set \<times> int option" where
  "find_parent_materialized_asset_partitions instance_queryer latest_id target_asset_selection
       asset_graph can_reconcile_fn =
     fold_result
       (scan_parent instance_queryer latest_id (target_asset_keys target_asset_selection)
          asset_graph can_reconcile_fn)
       (target_parent_asset_keys target_asset_selection) ({}, latest_id)"



section \<open>The allowable time window\<close>

definition allowable_time_window_for_partitions_def ::
  "time_window_partitions_definition \<Rightarrow> datetime \<Rightarrow> time_window option" where
  "allowable_time_window_for_partitions_def partitions_def evaluation_time =
     (case get_last_partition_window partitions_def evaluation_time of
        None \<Rightarrow> None
      | Some latest_partition_window \<Rightarrow>
          (case get_first_partition_window partitions_def evaluation_time of
             None \<Rightarrow> None
           | Some earliest_partition_window \<Rightarrow>
               Some (TimeWindow
                 (max (window_start earliest_partition_window)
                      (window_start latest_partition_window - timedelta_days 1
                         + timedelta_resolution))
                 (window_end latest_partition_window))))"

definition candidates_unit_within_allowable_time_window ::
  "asset_graph \<Rightarrow> asset_key_partition_key list \<Rightarrow> datetime \<Rightarrow> bool" where
  "candidates_unit_within_allowable_time_window asset_graph candidates_unit evaluation_time =
     (case candidates_unit of
        [] \<Rightarrow> True
      | representative_candidate # _ \<Rightarrow>
          (case get_partitions_def asset_graph (asset_key representative_candidate) of
             Some (TimeWindowPartitionsDefinition partitions_def) \<Rightarrow>
               if \<not> truthy_str (partition_key representative_candidate) then True
               else (case allowable_time_window_for_partitions_def partitions_def evaluation_time of
                       None \<Rightarrow> False
                     | Some allowable_time_window \<Rightarrow>
                         (let candidate_partition_window =
                                time_window_for_partition_key partitions_def
                                  (the (partition_key representative_candidate))
                          in window_start candidate_partition_window
                               \<ge> window_start allowable_time_window
                             \<and> window_end candidate_partition_window
                               \<le> window_end allowable_time_window))
           | _ \<Rightarrow> True))"

section \<open>The acceptance predicate of the graph closure\<close>

text \<open>
  \<^verbatim>\<open>parents_will_be_reconciled\<close> and \<^verbatim>\<open>should_reconcile\<close> are closures inside
  \<^verbatim>\<open>determine_asset_partitions_to_reconcile\<close>; the variables they capture are arguments
  here.
\<close>

definition parents_will_be_reconciled ::
  "asset_graph \<Rightarrow> instance_queryer \<Rightarrow> asset_key_partition_key \<Rightarrow> asset_key_partition_key set \<Rightarrow> bool" where
  "parents_will_be_reconciled asset_graph instance_queryer candidate to_reconcile =
     list_all
       (\<lambda>parent.
          (parent \<in> to_reconcile
             \<and> have_same_partitioning asset_graph (asset_key parent) (asset_key candidate)
             \<and> partition_key parent = partition_key candidate)
          \<or> is_reconciled instance_queryer parent asset_graph)
       (get_parents_partitions asset_graph (get_dynamic_partitions instance_queryer)
          (asset_key candidate) (partition_key candidate))"

definition should_reconcile ::
  "asset_graph \<Rightarrow> instance_queryer \<Rightarrow> datetime \<Rightarrow> asset_key_partition_key set \<Rightarrow>
   asset_key_partition_key set \<Rightarrow> asset_key set \<Rightarrow>
   asset_key_partition_key list \<Rightarrow> asset_key_partition_key set \<Rightarrow> bool" where
  "should_reconcile asset_graph instance_queryer evaluation_time
       eventual_asset_partitions_to_reconcile_for_freshness backfill_target_asset_graph_subset
       targets candidates_unit to_reconcile =
     (if \<not> candidates_unit_within_allowable_time_window asset_graph candidates_unit evaluation_time
      then False
      else if list_ex
                (\<lambda>candidate.
                   candidate \<in> eventual_asset_partitions_to_reconcile_for_freshness
                   \<or> candidate \<in> backfill_target_asset_graph_subset
                   \<or> asset_key candidate \<notin> targets)
                candidates_unit
      then False
      else list_all
             (\<lambda>candidate. parents_will_be_reconciled asset_graph instance_queryer candidate to_reconcile)
             candidates_unit
           \<and> list_ex (\<lambda>candidate. \<not> is_reconciled instance_queryer candidate asset_graph)
               candidates_unit)"

section \<open>The freshness policy scheduler\<close>

text \<open>
  A \<^verbatim>\<open>pendulum.Period\<close> is the pair of its start and its end. \<^verbatim>\<open>cron_string_iterator\<close> (not among the sources) is an argument: for a start
  time, a cron string and a time zone it gives the sequence of ticks it yields.
\<close>

datatype period = Period (period_start: datetime) (period_end: datetime)

type_synonym cron_string_iterator = "datetime \<Rightarrow> string \<Rightarrow> string option \<Rightarrow> nat \<Rightarrow> datetime"

text \<open>
  \<^verbatim>\<open>0.9 * maximum_lag_delta\<close> multiplies a \<^verbatim>\<open>timedelta\<close> by a float: Python takes the
  float as the exact ratio of two integers (\<^verbatim>\<open>as_integer_ratio\<close>), multiplies the
  microseconds by it and rounds to the nearest microsecond, halves to even
  (\<^verbatim>\<open>_divide_and_round\<close>). The float \<^verbatim>\<open>0.9\<close> is \<^verbatim>\<open>8106479329266893 / 2 ** 53\<close>.
\<close>

definition divide_and_round :: "int \<Rightarrow> int \<Rightarrow> int" where
  "divide_and_round a b =
     (let q = a div b; r = 2 * (a mod b);
          greater_than_half = (if b > 0 then r > b else r < b)
      in if greater_than_half \<or> (r = b \<and> q mod 2 = 1) then q + 1 else q)"

definition timedelta_mul_float :: "int \<times> int \<Rightarrow> timedelta \<Rightarrow> timedelta" where
  "timedelta_mul_float ratio usec = divide_and_round (usec * fst ratio) (snd ratio)"

definition float_0_9 :: "int \<times> int" where
  "float_0_9 = (8106479329266893, 9007199254740992)"

text \<open>
  The \<^verbatim>\<open>while True\<close> loop over the ticks: the \<open>n\<close>-th tick is examined, and the loop goes
  on with the next one until a tick requires data after the effective data time. The
  value \<open>None\<close> is a loop that never returns.
\<close>

partial_function (option) next_required_tick ::
  "(nat \<Rightarrow> datetime) \<Rightarrow> timedelta \<Rightarrow> datetime \<Rightarrow> nat \<Rightarrow> period option" where
  "next_required_tick tick_iterator lag effective_data_time n =
     (if effective_data_time < tick_iterator n - lag
      then Some (Period (tick_iterator n - lag) (tick_iterator n))
      else next_required_tick tick_iterator lag effective_data_time (Suc n))"

definition get_execution_period_for_policy ::
  "cron_string_iterator \<Rightarrow> freshness_policy \<Rightarrow> datetime option \<Rightarrow> datetime \<Rightarrow> period option" where
  "get_execution_period_for_policy cron_iterator freshness_policy effective_data_time evaluation_time =
     (case effective_data_time of
        None \<Rightarrow> Some (Period evaluation_time evaluation_time)
      | Some data_time \<Rightarrow>
          if truthy_str (cron_schedule freshness_policy)
          then next_required_tick
                 (cron_iterator evaluation_time (the (cron_schedule freshness_policy))
                    (cron_schedule_timezone freshness_policy))
                 (maximum_lag_delta freshness_policy) data_time 0
          else Some (Period
                 (data_time + timedelta_mul_float float_0_9 (maximum_lag_delta freshness_policy))
                 (max (data_time + maximum_lag_delta freshness_policy) evaluation_time)))"

text \<open>The loop of \<^verbatim>\<open>get_execution_period_for_policies\<close> over the sorted periods, with
  its \<^verbatim>\<open>break\<close>.\<close>

fun merge_periods :: "period option \<Rightarrow> period list \<Rightarrow> period option" where
  "merge_periods merged_period [] = merged_period"
| "merge_periods None (p # ps) = merge_periods (Some p) ps"
| "merge_periods (Some merged_period) (p # ps) =
     (if period_start p \<le> period_end merged_period
      then merge_periods
             (Some (Period (max (period_start p) (period_start merged_period)) (period_end p))) ps
      else Some merged_period)"

text \<open>
  The periods of all policies are computed first (\<^verbatim>\<open>sorted\<close> consumes the generator),
  so the function returns only if every one of them does; \<^verbatim>\<open>sorted\<close> is stable, as is
  \<open>sort_key\<close>. The policies are listed in the order in which the set is iterated. The
  outer \<open>option\<close> is \<open>None\<close> when some period is never returned, the inner one is Python's
  \<^verbatim>\<open>Optional\<close>.
\<close>

definition get_execution_period_for_policies ::
  "cron_string_iterator \<Rightarrow> freshness_policy list \<Rightarrow> datetime option \<Rightarrow> datetime \<Rightarrow>
   period option option" where
  "get_execution_period_for_policies cron_iterator policies effective_data_time evaluation_time =
     (let periods = map (\<lambda>policy. get_execution_period_for_policy cron_iterator policy
                                    effective_data_time evaluation_time) policies
      in if list_ex (\<lambda>p. p = None) periods then None
         else Some (merge_periods None (sort_key period_end (map the periods))))"

section \<open>Serialization of the cursor\<close>





fun map_result :: "('a \<Rightarrow> error + 'b) \<Rightarrow> 'a list \<Rightarrow> error + 'b list" where
  "map_result f [] = Inr []"
| "map_result f (x # xs) =
     (case f x of
        Inl e \<Rightarrow> Inl e
      | Inr y \<Rightarrow> (case map_result f xs of Inl e \<Rightarrow> Inl e | Inr ys \<Rightarrow> Inr (y # ys)))"







section \<open>The root staleness detector\<close>

definition was_previously_materialized_or_requested ::
  "asset_reconciliation_cursor \<Rightarrow> asset_key \<Rightarrow> bool" where
  "was_previously_materialized_or_requested self key =
     (key \<in> materialized_or_requested_root_asset_keys self)"

text \<open>
  The default of the dictionary lookup, the empty subset of the partitions definition, is
  evaluated before the lookup, so an asset without a partitions definition raises
  \<open>AttributeError\<close>. Modelled from the spec: for a partitions definition that is not
  time-windowed, \<^verbatim>\<open>get_partition_keys_not_in_subset\<close> (a method of the partition subset,
  not among the sources) gives the partition keys of the definition, for the store of
  dynamic partitions, that are absent from the subset.
\<close>

definition get_never_requested_never_materialized_partitions ::
  "asset_reconciliation_cursor \<Rightarrow> asset_key \<Rightarrow> asset_graph \<Rightarrow> dynamic_partitions_store \<Rightarrow>
   datetime \<Rightarrow> error + string list" where
  "get_never_requested_never_materialized_partitions self key asset_graph
       dynamic_partitions_store evaluation_time =
     (case get_partitions_def asset_graph key of
        None \<Rightarrow> Inl AttributeError
      | Some partitions_def \<Rightarrow>
          (let materialized_or_requested_subset =
                 (case materialized_or_requested_root_partitions_by_asset_key self key of
                    None \<Rightarrow> empty_subset partitions_def
                  | Some s \<Rightarrow> s)
           in case partitions_def of
                TimeWindowPartitionsDefinition time_partitions_def \<Rightarrow>
                  (case allowable_time_window_for_partitions_def time_partitions_def
                          evaluation_time of
                     None \<Rightarrow> Inr []
                   | Some allowable_time_window \<Rightarrow>
                       Inr (filter (\<lambda>pk. pk \<notin> materialized_or_requested_subset)
                              (get_partition_keys_in_time_window time_partitions_def
                                 allowable_time_window)))
              | OtherPartitionsDefinition get_partition_keys \<Rightarrow>
                  Inr (filter (\<lambda>pk. pk \<notin> materialized_or_requested_subset)
                         (get_partition_keys dynamic_partitions_store))))"

text \<open>
  The state of the loop over the root assets is the triple
  \<^verbatim>\<open>(never_materialized_or_requested, newly_materialized_root_asset_keys,
  newly_materialized_root_partitions_by_asset_key)\<close>.
\<close>

type_synonym root_scan =
  "asset_key_partition_key set \<times> asset_key set \<times> (asset_key \<rightharpoonup> string set)"

definition scan_root_partition ::
  "instance_queryer \<Rightarrow> asset_key \<Rightarrow> string \<Rightarrow> root_scan \<Rightarrow> root_scan" where
  "scan_root_partition instance_queryer key pk st =
     (case st of (never, newly_keys, newly_partitions) \<Rightarrow>
        if get_latest_materialization_record instance_queryer
             (Inr (AssetKeyPartitionKey key (Some pk))) None \<noteq> None
        then (never, newly_keys,
              newly_partitions(key \<mapsto> insert pk (get_or_empty newly_partitions key)))
        else (insert (AssetKeyPartitionKey key (Some pk)) never, newly_keys, newly_partitions))"

definition scan_root ::
  "instance_queryer \<Rightarrow> asset_reconciliation_cursor \<Rightarrow> asset_graph \<Rightarrow> datetime \<Rightarrow> asset_key \<Rightarrow>
   root_scan \<Rightarrow> error + root_scan" where
  "scan_root instance_queryer cursor asset_graph evaluation_time key st =
     (if is_partitioned asset_graph key
      then (case get_never_requested_never_materialized_partitions cursor key asset_graph
                   (get_dynamic_partitions instance_queryer) evaluation_time of
              Inl e \<Rightarrow> Inl e
            | Inr pks \<Rightarrow> Inr (fold (scan_root_partition instance_queryer key) pks st))
      else if \<not> was_previously_materialized_or_requested cursor key
      then (case st of (never, newly_keys, newly_partitions) \<Rightarrow>
              if get_latest_materialization_record instance_queryer
                   (Inr (AssetKeyPartitionKey key None)) None \<noteq> None
              then Inr (never, insert key newly_keys, newly_partitions)
              else Inr (insert (AssetKeyPartitionKey key None) never, newly_keys,
                        newly_partitions))
      else Inr st)"

definition find_never_materialized_or_requested_root_asset_partitions ::
  "instance_queryer \<Rightarrow> asset_reconciliation_cursor \<Rightarrow> resolved_asset_selection \<Rightarrow> asset_graph \<Rightarrow>
   datetime \<Rightarrow> error + root_scan" where
  "find_never_materialized_or_requested_root_asset_partitions instance_queryer cursor
       target_asset_selection asset_graph evaluation_time =
     fold_result (scan_root instance_queryer cursor asset_graph evaluation_time)
       (target_root_asset_keys target_asset_selection) ({}, {}, Map.empty)"

section \<open>The graph closure\<close>

text \<open>
  Modelled from the spec: \<^verbatim>\<open>bfs_filter_asset_partitions\<close> (a method of the asset graph,
  not among the sources) is a breadth-first expansion from the seed set, guided by the
  predicate. The unit taken from the queue is judged together with the assets that must
  be materialized with it, as one group with the partition key of the unit; an accepted
  group joins the result, and the children of its members that were not seen before
  join the queue. A traversal that does not end has the value \<open>None\<close>.
\<close>

definition candidates_unit_of :: "asset_graph \<Rightarrow> asset_key_partition_key \<Rightarrow> asset_key_partition_key list" where
  "candidates_unit_of asset_graph u =
     map (\<lambda>key. AssetKeyPartitionKey key (partition_key u))
       (asset_key u # filter (\<lambda>key. key \<noteq> asset_key u)
                        (get_required_multi_asset_keys asset_graph (asset_key u)))"

definition unseen_children ::
  "asset_graph \<Rightarrow> dynamic_partitions_store \<Rightarrow> asset_key_partition_key list \<Rightarrow>
   asset_key_partition_key set \<Rightarrow> asset_key_partition_key list" where
  "unseen_children asset_graph store candidates_unit all_nodes =
     remdups (filter (\<lambda>child. child \<notin> all_nodes)
       (concat (map (\<lambda>candidate. get_children_partitions asset_graph store
                                    (asset_key candidate) (partition_key candidate))
                  candidates_unit)))"

partial_function (option) bfs_loop ::
  "asset_graph \<Rightarrow> dynamic_partitions_store \<Rightarrow>
   (asset_key_partition_key list \<Rightarrow> asset_key_partition_key set \<Rightarrow> bool) \<Rightarrow>
   asset_key_partition_key list \<Rightarrow> asset_key_partition_key set \<Rightarrow> asset_key_partition_key set \<Rightarrow>
   asset_key_partition_key set option" where
  "bfs_loop asset_graph store condition_fn queue all_nodes result =
     (case queue of
        [] \<Rightarrow> Some result
      | u # rest \<Rightarrow>
          if condition_fn (candidates_unit_of asset_graph u) result
          then bfs_loop asset_graph store condition_fn
                 (rest @ unseen_children asset_graph store (candidates_unit_of asset_graph u) all_nodes)
                 (all_nodes \<union> set (unseen_children asset_graph store
                                      (candidates_unit_of asset_graph u) all_nodes))
                 (result \<union> set (candidates_unit_of asset_graph u))
          else bfs_loop asset_graph store condition_fn rest all_nodes result)"

definition bfs_filter_asset_partitions ::
  "asset_graph \<Rightarrow> dynamic_partitions_store \<Rightarrow>
   (asset_key_partition_key list \<Rightarrow> asset_key_partition_key set \<Rightarrow> bool) \<Rightarrow>
   asset_key_partition_key list \<Rightarrow> asset_key_partition_key set option" where
  "bfs_filter_asset_partitions asset_graph store condition_fn initial_asset_partitions =
     bfs_loop asset_graph store condition_fn initial_asset_partitions
       (set initial_asset_partitions) {}"

text \<open>
  The collaborators of a tick that are not among the sources and that are neither the
  asset graph nor the instance queryer: the iterator over cron ticks, the tags a
  partitions definition gives a partition key, the partition key that a run request
  reads from its tags, and the order in which Python iterates over a set of asset
  partitions.
\<close>

record collaborators =
  cron_iterator :: cron_string_iterator
  get_tags_for_partition_key :: "partitions_definition \<Rightarrow> string \<Rightarrow> (string \<times> string) list"
  partition_key_of_tags :: "(string \<times> string) list \<Rightarrow> string option"
  iteration_order :: "asset_key_partition_key set \<Rightarrow> asset_key_partition_key list"

definition can_reconcile_fn :: "asset_graph \<Rightarrow> datetime \<Rightarrow> asset_key_partition_key \<Rightarrow> bool" where
  "can_reconcile_fn asset_graph evaluation_time candidate =
     (if partition_key candidate = None then True
      else candidates_unit_within_allowable_time_window asset_graph [candidate] evaluation_time)"

type_synonym reconcile_decision =
  "asset_key_partition_key set \<times> asset_key set \<times> (asset_key \<rightharpoonup> string set) \<times> int option"

definition determine_asset_partitions_to_reconcile ::
  "collaborators \<Rightarrow> instance_queryer \<Rightarrow> asset_reconciliation_cursor \<Rightarrow> resolved_asset_selection \<Rightarrow>
   asset_graph \<Rightarrow> asset_key_partition_key set \<Rightarrow> datetime \<Rightarrow> (error + reconcile_decision) option" where
  "determine_asset_partitions_to_reconcile env instance_queryer cursor target_asset_selection
       asset_graph eventual_asset_partitions_to_reconcile_for_freshness evaluation_time =
     (case find_never_materialized_or_requested_root_asset_partitions instance_queryer cursor
             target_asset_selection asset_graph evaluation_time of
        Inl e \<Rightarrow> Some (Inl e)
      | Inr (never_materialized_or_requested_roots, newly_materialized_root_asset_keys,
             newly_materialized_root_partitions_by_asset_key) \<Rightarrow>
          (case find_parent_materialized_asset_partitions instance_queryer
                  (latest_storage_id cursor) target_asset_selection asset_graph
                  (can_reconcile_fn asset_graph evaluation_time) of
             Inl e \<Rightarrow> Some (Inl e)
           | Inr (stale_candidates, new_latest_storage_id) \<Rightarrow>
               (case get_active_backfill_target_asset_graph_subset
                       (queryer_instance instance_queryer) asset_graph of
                  Inl e \<Rightarrow> Some (Inl e)
                | Inr backfill_target_asset_graph_subset \<Rightarrow>
                    (case bfs_filter_asset_partitions asset_graph
                            (get_dynamic_partitions instance_queryer)
                            (should_reconcile asset_graph instance_queryer evaluation_time
                               eventual_asset_partitions_to_reconcile_for_freshness
                               backfill_target_asset_graph_subset
                               (target_asset_keys target_asset_selection))
                            (iteration_order env
                               (never_materialized_or_requested_roots \<union> stale_candidates)) of
                       None \<Rightarrow> None
                     | Some to_reconcile \<Rightarrow>
                         Some (Inr (to_reconcile, newly_materialized_root_asset_keys,
                                    newly_materialized_root_partitions_by_asset_key,
                                    new_latest_storage_id))))))"

section \<open>The selection of the freshness scheduler\<close>

text \<open>
  Of the \<^verbatim>\<open>CachingDataTimeResolver\<close> (not among the sources) the module asks three data
  times of an asset. \<^verbatim>\<open>if execution_period:\<close> tests a \<^verbatim>\<open>pendulum.Period\<close>, a
  \<^verbatim>\<open>timedelta\<close>, which is false when its length is zero.
\<close>

record data_time_resolver =
  get_current_data_time :: "asset_key \<Rightarrow> datetime option"
  get_in_progress_data_time :: "asset_key \<Rightarrow> datetime \<Rightarrow> datetime option"
  get_ignored_failure_data_time :: "asset_key \<Rightarrow> datetime option"

definition truthy_period :: "period option \<Rightarrow> bool" where
  "truthy_period p = (case p of None \<Rightarrow> False | Some x \<Rightarrow> period_start x \<noteq> period_end x)"

text \<open>\<^verbatim>\<open>min(..., default=d)\<close> and \<^verbatim>\<open>max(filter(None, ...), default=None)\<close>.\<close>

definition min_default :: "datetime list \<Rightarrow> datetime \<Rightarrow> datetime" where
  "min_default xs d = (case xs of [] \<Rightarrow> d | x # rest \<Rightarrow> fold min rest x)"

definition max_present :: "datetime option list \<Rightarrow> datetime option" where
  "max_present xs =
     (case map the (filter (\<lambda>x. x \<noteq> None) xs) of
        [] \<Rightarrow> None
      | x # rest \<Rightarrow> Some (fold max rest x))"

fun fold_option :: "('a \<Rightarrow> 's \<Rightarrow> 's option) \<Rightarrow> 'a list \<Rightarrow> 's \<Rightarrow> 's option" where
  "fold_option f [] s = Some s"
| "fold_option f (x # xs) s = (case f x s of None \<Rightarrow> None | Some s' \<Rightarrow> fold_option f xs s')"

text \<open>
  The body of the loop over the asset keys in topological order; the state is the triple
  \<^verbatim>\<open>(to_materialize, eventually_materialize, expected_data_time_by_key)\<close>. The value
  \<open>None\<close> is an execution period that is never returned.
\<close>

type_synonym freshness_scan =
  "asset_key_partition_key set \<times> asset_key_partition_key set \<times> (asset_key \<rightharpoonup> datetime option)"

definition freshness_step ::
  "cron_string_iterator \<Rightarrow> data_time_resolver \<Rightarrow> asset_graph \<Rightarrow> asset_key set \<Rightarrow> datetime \<Rightarrow>
   asset_key \<Rightarrow> freshness_scan \<Rightarrow> freshness_scan option" where
  "freshness_step cron_it resolver asset_graph targets evaluation_time key st =
     (case st of (to_materialize, eventually_materialize, expected_data_time_by_key) \<Rightarrow>
        if is_source asset_graph key \<or> get_downstream_freshness_policies asset_graph key = []
        then Some st
        else
          (let current_data_time = get_current_data_time resolver key;
               expected_data_time =
                 min_default
                   (map (\<lambda>k. the (the (expected_data_time_by_key k)))
                      (filter (\<lambda>k. expected_data_time_by_key k \<noteq> None
                                  \<and> expected_data_time_by_key k \<noteq> Some None)
                         (get_parents asset_graph key)))
                   evaluation_time
           in case (if key \<in> targets
                    then get_execution_period_for_policies cron_it
                           (get_downstream_freshness_policies asset_graph key)
                           (max_present
                              [current_data_time,
                               get_in_progress_data_time resolver key evaluation_time,
                               get_ignored_failure_data_time resolver key])
                           evaluation_time
                    else Some None) of
                None \<Rightarrow> None
              | Some execution_period \<Rightarrow>
                  (let eventually_materialize' =
                         (if key \<in> targets \<and> truthy_period execution_period
                          then insert (AssetKeyPartitionKey key None) eventually_materialize
                          else eventually_materialize)
                   in if AssetKeyPartitionKey key None \<in> to_materialize
                      then Some (to_materialize, eventually_materialize',
                                 expected_data_time_by_key(key \<mapsto> Some expected_data_time))
                      else if execution_period \<noteq> None
                              \<and> period_start (the execution_period) \<le> evaluation_time
                              \<and> expected_data_time \<ge> period_start (the execution_period)
                      then Some (insert (AssetKeyPartitionKey key None) to_materialize
                                   \<union> set (map (\<lambda>required_key. AssetKeyPartitionKey required_key None)
                                            (get_required_multi_asset_keys asset_graph key)),
                                 eventually_materialize',
                                 expected_data_time_by_key(key \<mapsto> Some expected_data_time))
                      else Some (to_materialize, eventually_materialize',
                                 expected_data_time_by_key(key \<mapsto> current_data_time)))))"

definition determine_asset_partitions_to_reconcile_for_freshness ::
  "cron_string_iterator \<Rightarrow> data_time_resolver \<Rightarrow> asset_graph \<Rightarrow> resolved_asset_selection \<Rightarrow>
   datetime \<Rightarrow> (asset_key_partition_key set \<times> asset_key_partition_key set) option" where
  "determine_asset_partitions_to_reconcile_for_freshness cron_it resolver asset_graph
       target_asset_selection evaluation_time =
     (case fold_option
             (freshness_step cron_it resolver asset_graph
                (target_asset_keys target_asset_selection) evaluation_time)
             (concat (toposort_asset_keys asset_graph)) ({}, {}, Map.empty) of
        None \<Rightarrow> None
      | Some st \<Rightarrow> Some (fst st, fst (snd st)))"

section \<open>The run request batcher and the tick\<close>

text \<open>
  The dictionary of the groups keeps its keys in the order of their first insertion, as
  \<open>AList.update\<close> does; the set of asset keys of a group is listed in the order of
  insertion. A \<^verbatim>\<open>RunRequest\<close> is built from an asset selection and tags; its partition
  key is what it reads from its tags.
\<close>

definition add_to_group ::
  "asset_graph \<Rightarrow> asset_key_partition_key \<Rightarrow>
   ((partitions_definition option \<times> string option) \<times> asset_key list) list \<Rightarrow>
   ((partitions_definition option \<times> string option) \<times> asset_key list) list" where
  "add_to_group asset_graph asset_partition groups =
     (let group_key = (get_partitions_def asset_graph (asset_key asset_partition),
                       partition_key asset_partition)
      in AList.update group_key
           (List.insert (asset_key asset_partition)
              (case map_of groups group_key of None \<Rightarrow> [] | Some asset_keys \<Rightarrow> asset_keys))
           groups)"

definition tags_update :: "(string \<times> string) list \<Rightarrow> (string \<times> string) list \<Rightarrow> (string \<times> string) list" where
  "tags_update base new = fold (\<lambda>kv d. AList.update (fst kv) (snd kv) d) new base"

definition run_request_of_group ::
  "collaborators \<Rightarrow> (string \<times> string) list option \<Rightarrow>
   (partitions_definition option \<times> string option) \<times> asset_key list \<Rightarrow> error + run_request" where
  "run_request_of_group env run_tags requested_group =
     (let base = (case run_tags of None \<Rightarrow> [] | Some ts \<Rightarrow> tags_update [] ts)
      in case snd (fst requested_group) of
           None \<Rightarrow>
             Inr \<lparr> asset_selection = snd requested_group, run_partition_key = partition_key_of_tags env base,
                   tags = base \<rparr>
         | Some pk \<Rightarrow>
             (case fst (fst requested_group) of
                None \<Rightarrow> Inl CheckError
              | Some partitions_def \<Rightarrow>
                  (let ts = tags_update base (get_tags_for_partition_key env partitions_def pk)
                   in Inr \<lparr> asset_selection = snd requested_group,
                            run_partition_key = partition_key_of_tags env ts, tags = ts \<rparr>)))"

definition build_run_requests ::
  "collaborators \<Rightarrow> asset_key_partition_key list \<Rightarrow> asset_graph \<Rightarrow>
   (string \<times> string) list option \<Rightarrow> error + run_request list" where
  "build_run_requests env asset_partitions asset_graph run_tags =
     map_result (run_request_of_group env run_tags)
       (fold (add_to_group asset_graph) asset_partitions [])"

text \<open>
  A tick: the clock, the instance queryer and the data time resolver that \<^verbatim>\<open>reconcile\<close>
  creates are arguments, and the prefetching of records has no effect on the result.
\<close>

definition reconcile ::
  "collaborators \<Rightarrow> data_time_resolver \<Rightarrow> asset_graph \<Rightarrow> resolved_asset_selection \<Rightarrow>
   instance_queryer \<Rightarrow> asset_reconciliation_cursor \<Rightarrow> (string \<times> string) list option \<Rightarrow> datetime \<Rightarrow>
   (error + run_request list \<times> asset_reconciliation_cursor) option" where
  "reconcile env resolver asset_graph target_asset_selection instance_queryer cursor run_tags
       current_time =
     (case determine_asset_partitions_to_reconcile_for_freshness (cron_iterator env) resolver
             asset_graph target_asset_selection current_time of
        None \<Rightarrow> None
      | Some (asset_partitions_to_reconcile_for_freshness,
              eventual_asset_partitions_to_reconcile_for_freshness) \<Rightarrow>
          (case determine_asset_partitions_to_reconcile env instance_queryer cursor
                  target_asset_selection asset_graph
                  eventual_asset_partitions_to_reconcile_for_freshness current_time of
             None \<Rightarrow> None
           | Some (Inl e) \<Rightarrow> Some (Inl e)
           | Some (Inr (asset_partitions_to_reconcile, newly_materialized_root_asset_keys,
                        newly_materialized_root_partitions_by_asset_key, new_latest_storage_id)) \<Rightarrow>
               (case build_run_requests env
                       (iteration_order env
                          (asset_partitions_to_reconcile
                             \<union> asset_partitions_to_reconcile_for_freshness))
                       asset_graph run_tags of
                  Inl e \<Rightarrow> Some (Inl e)
                | Inr run_requests \<Rightarrow>
                    (case with_updates cursor new_latest_storage_id run_requests
                            newly_materialized_root_asset_keys
                            newly_materialized_root_partitions_by_asset_key asset_graph of
                       Inl e \<Rightarrow> Some (Inl e)
                     | Inr updated_cursor \<Rightarrow> Some (Inr (run_requests, updated_cursor))))))"

section \<open>What a tick assumes of its collaborators\<close>

text \<open>
  Modelled from the spec: the record store assigns totally ordered sequence numbers, and
  the latest materialization of an asset after a sequence number is the latest
  materialization of the asset when that one is newer than the number, and none
  otherwise. Storage ids are the row ids of the event log and are not zero.
\<close>

definition newer_than :: "int option \<Rightarrow> int \<Rightarrow> bool" where
  "newer_than after_cursor i = (case after_cursor of None \<Rightarrow> True | Some a \<Rightarrow> a < i)"

definition record_store_consistent :: "instance_queryer \<Rightarrow> bool" where
  "record_store_consistent q =
     ((\<forall>key after_cursor.
         get_latest_materialization_record q (Inl key) after_cursor =
           (case get_latest_materialization_record q (Inl key) None of
              None \<Rightarrow> None
            | Some r \<Rightarrow> if newer_than after_cursor (storage_id r) then Some r else None))
      \<and> (\<forall>key r. get_latest_materialization_record q (Inl key) None = Some r \<longrightarrow> storage_id r \<noteq> 0))"

text \<open>
  Modelled from the spec: a run request targets one partition key, which it reads from
  the partition tags of its group; the run tags of the sensor name no partition.
\<close>

definition tags_carry_partition_key :: "collaborators \<Rightarrow> (string \<times> string) list option \<Rightarrow> bool" where
  "tags_carry_partition_key env run_tags =
     (partition_key_of_tags env (case run_tags of None \<Rightarrow> [] | Some ts \<Rightarrow> tags_update [] ts) = None
      \<and> (\<forall>partitions_def pk.
            partition_key_of_tags env
              (tags_update (case run_tags of None \<Rightarrow> [] | Some ts \<Rightarrow> tags_update [] ts)
                 (get_tags_for_partition_key env partitions_def pk)) = Some pk))"

text \<open>No partitions definition of the graph has the empty string among its partition
  keys, root assets have no parents that are not sources, and the order of iteration
  lists every finite set.\<close>

definition partition_keys_nonempty :: "asset_graph \<Rightarrow> dynamic_partitions_store \<Rightarrow> bool" where
  "partition_keys_nonempty asset_graph store =
     (\<forall>key partitions_def. get_partitions_def asset_graph key = Some partitions_def \<longrightarrow>
        (case partitions_def of
           TimeWindowPartitionsDefinition time_partitions_def \<Rightarrow>
             (\<forall>w. [] \<notin> set (get_partition_keys_in_time_window time_partitions_def w))
         | OtherPartitionsDefinition get_partition_keys \<Rightarrow> [] \<notin> set (get_partition_keys store)))"

definition roots_have_no_parents :: "asset_graph \<Rightarrow> resolved_asset_selection \<Rightarrow> bool" where
  "roots_have_no_parents asset_graph target_asset_selection =
     (\<forall>key \<in> set (target_root_asset_keys target_asset_selection).
        \<not> has_non_source_parents asset_graph key)"

definition iterates_every_finite_set :: "collaborators \<Rightarrow> bool" where
  "iterates_every_finite_set env = (\<forall>S. finite S \<longrightarrow> set (iteration_order env S) = S)"

subsection \<open>Concrete cursors, graphs and updates used as test inputs\<close>

definition graph_without_partitions :: asset_graph where
  "graph_without_partitions =
     \<lparr> has_non_source_parents = (\<lambda>_. False), get_partitions_def = (\<lambda>_. None),
       have_same_partitioning = (\<lambda>_ _. True), get_parents_partitions = (\<lambda>_ _ _. []),
       get_children_partitions = (\<lambda>_ _ _. []), is_source = (\<lambda>_. False),
       is_partitioned = (\<lambda>_. False),
       get_parents = (\<lambda>_. []), get_required_multi_asset_keys = (\<lambda>_. []),
       get_downstream_freshness_policies = (\<lambda>_. []), toposort_asset_keys = [] \<rparr>"

definition cursor_at :: "int \<Rightarrow> asset_reconciliation_cursor" where
  "cursor_at n = \<lparr> latest_storage_id = Some n,
                    materialized_or_requested_root_asset_keys = {},
                    materialized_or_requested_root_partitions_by_asset_key = Map.empty \<rparr>"

definition update_to :: "int option \<Rightarrow> cursor_update" where
  "update_to n = \<lparr> update_storage_id = n, update_run_requests = [],
                    update_root_asset_keys = {}, update_root_partitions = Map.empty,
                    update_graph = graph_without_partitions \<rparr>"

text \<open>Two unpartitioned assets: the root \<open>a\<close> and its child \<open>b\<close>; \<open>a\<close> is reconciled,
  \<open>b\<close> is not.\<close>

definition unit_a :: asset_key_partition_key where
  "unit_a = AssetKeyPartitionKey [''a''] None"

definition unit_b :: asset_key_partition_key where
  "unit_b = AssetKeyPartitionKey [''b''] None"

definition graph_a_b :: asset_graph where
  "graph_a_b =
     \<lparr> has_non_source_parents = (\<lambda>k. k = [''b'']), get_partitions_def = (\<lambda>_. None),
       have_same_partitioning = (\<lambda>_ _. True),
       get_parents_partitions = (\<lambda>_ k pk. if k = [''b''] then [AssetKeyPartitionKey [''a''] pk] else []),
       get_children_partitions = (\<lambda>_ k pk. if k = [''a''] then [AssetKeyPartitionKey [''b''] pk] else []),
       is_source = (\<lambda>_. False), is_partitioned = (\<lambda>_. False),
       get_parents = (\<lambda>_. []), get_required_multi_asset_keys = (\<lambda>_. []),
       get_downstream_freshness_policies = (\<lambda>_. []), toposort_asset_keys = [] \<rparr>"

definition instance_with :: "partition_backfill list \<Rightarrow> dagster_instance" where
  "instance_with bs = \<lparr> backfills = bs \<rparr>"

definition queryer_a_reconciled :: "partition_backfill list \<Rightarrow> instance_queryer" where
  "queryer_a_reconciled bs =
     \<lparr> queryer_instance = instance_with bs, get_dynamic_partitions = (\<lambda>_. []),
       is_reconciled = (\<lambda>u _. asset_key u = [''a'']),
       get_latest_materialization_record = (\<lambda>_ _. None),
       is_asset_planned_for_run = (\<lambda>_ _. False),
       get_materialized_partitions = (\<lambda>_ _. []) \<rparr>"

text \<open>
  Daily partitions from 2022-12-31 on, with time counted from 2023-01-01 00:00: at the
  evaluation time 2023-01-03 01:00 the latest window is that of 2023-01-02.
\<close>

definition daily_partitions :: time_window_partitions_definition where
  "daily_partitions =
     \<lparr> get_last_partition_window =
         (\<lambda>t. if t < 0 then None
              else Some (TimeWindow ((t div 86400000000 - 1) * 86400000000)
                                    ((t div 86400000000) * 86400000000))),
       get_first_partition_window =
         (\<lambda>t. if t < 0 then None else Some (TimeWindow (- 86400000000) 0)),
       time_window_for_partition_key =
         (\<lambda>key. if key = ''2022-12-31'' then TimeWindow (- 86400000000) 0
                else if key = ''2023-01-01'' then TimeWindow 0 86400000000
                else TimeWindow 86400000000 172800000000),
       get_partition_keys_in_time_window = (\<lambda>_. []) \<rparr>"

definition graph_daily :: asset_graph where
  "graph_daily =
     \<lparr> has_non_source_parents = (\<lambda>_. False),
       get_partitions_def = (\<lambda>_. Some (TimeWindowPartitionsDefinition daily_partitions)),
       have_same_partitioning = (\<lambda>_ _. True), get_parents_partitions = (\<lambda>_ _ _. []),
       get_children_partitions = (\<lambda>_ _ _. []), is_source = (\<lambda>_. False),
       is_partitioned = (\<lambda>_. True),
       get_parents = (\<lambda>_. []), get_required_multi_asset_keys = (\<lambda>_. []),
       get_downstream_freshness_policies = (\<lambda>_. []), toposort_asset_keys = [] \<rparr>"

definition jan_3_1am :: datetime where
  "jan_3_1am = 176400000000"






text \<open>
  Two policies with a maximum lag of 30 minutes, due daily at 10:30 and at 10:45, and an
  iterator that yields the daily ticks of these two cron strings from the start time on.
  Times are microseconds since midnight: the data is of 08:00, the evaluation is at 09:00.
\<close>

definition daily_ticks :: "datetime \<Rightarrow> datetime \<Rightarrow> nat \<Rightarrow> datetime" where
  "daily_ticks time_of_day start n =
     time_of_day + 86400000000 * ((start - time_of_day + 86399999999) div 86400000000 + int n)"

definition daily_cron_iterator :: cron_string_iterator where
  "daily_cron_iterator start cron tz =
     daily_ticks (if cron = ''30 10 * * *'' then 37800000000 else 38700000000) start"

definition policy_10_30 :: freshness_policy where
  "policy_10_30 = \<lparr> maximum_lag_delta = 1800000000, cron_schedule = Some ''30 10 * * *'',
                    cron_schedule_timezone = None \<rparr>"

definition policy_10_45 :: freshness_policy where
  "policy_10_45 = \<lparr> maximum_lag_delta = 1800000000, cron_schedule = Some ''45 10 * * *'',
                    cron_schedule_timezone = None \<rparr>"

definition policy_without_cron :: freshness_policy where
  "policy_without_cron = \<lparr> maximum_lag_delta = 1800000000, cron_schedule = None,
                           cron_schedule_timezone = None \<rparr>"

definition at_08_00 :: datetime where "at_08_00 = 28800000000"
definition at_09_00 :: datetime where "at_09_00 = 32400000000"
definition at_10_00 :: datetime where "at_10_00 = 36000000000"
definition at_10_15 :: datetime where "at_10_15 = 36900000000"
definition at_10_30 :: datetime where "at_10_30 = 37800000000"
definition at_10_45 :: datetime where "at_10_45 = 38700000000"






text \<open>
  A single unpartitioned root asset \<open>a\<close> with a freshness policy without cron schedule,
  never materialized, with no run in progress and no failed run: the data time resolver
  knows no data time, the instance has no record and no backfill.
\<close>

definition graph_fresh_a :: asset_graph where
  "graph_fresh_a =
     \<lparr> has_non_source_parents = (\<lambda>_. False), get_partitions_def = (\<lambda>_. None),
       have_same_partitioning = (\<lambda>_ _. True), get_parents_partitions = (\<lambda>_ _ _. []),
       get_children_partitions = (\<lambda>_ _ _. []), is_source = (\<lambda>_. False),
       is_partitioned = (\<lambda>_. False),
       get_parents = (\<lambda>_. []), get_required_multi_asset_keys = (\<lambda>_. []),
       get_downstream_freshness_policies = (\<lambda>k. if k = [''a''] then [policy_without_cron] else []),
       toposort_asset_keys = [[[''a'']]] \<rparr>"

definition selection_a :: resolved_asset_selection where
  "selection_a = \<lparr> target_asset_keys = {[''a'']}, target_parent_asset_keys = [[''a'']],
                   target_root_asset_keys = [[''a'']] \<rparr>"

definition queryer_without_records :: instance_queryer where
  "queryer_without_records =
     \<lparr> queryer_instance = instance_with [], get_dynamic_partitions = (\<lambda>_. []),
       is_reconciled = (\<lambda>_ _. False),
       get_latest_materialization_record = (\<lambda>_ _. None),
       is_asset_planned_for_run = (\<lambda>_ _. False),
       get_materialized_partitions = (\<lambda>_ _. []) \<rparr>"

definition resolver_without_data :: data_time_resolver where
  "resolver_without_data =
     \<lparr> get_current_data_time = (\<lambda>_. None), get_in_progress_data_time = (\<lambda>_ _. None),
       get_ignored_failure_data_time = (\<lambda>_. None) \<rparr>"

definition test_collaborators :: collaborators where
  "test_collaborators =
     \<lparr> cron_iterator = daily_cron_iterator,
       get_tags_for_partition_key = (\<lambda>_ pk. [(''dagster/partition'', pk)]),
       partition_key_of_tags = (\<lambda>ts. map_of ts ''dagster/partition''),
       iteration_order = (\<lambda>S. if S = {unit_a} then [unit_a] else []) \<rparr>"

text \<open>The same instance with one asset backfill, in a given status, that targets \<open>a\<close>.\<close>

definition backfill_of_a :: "bulk_action_status \<Rightarrow> partition_backfill" where
  "backfill_of_a s =
     \<lparr> status = s, is_asset_backfill = True, serialized_asset_backfill_data = Some {unit_a} \<rparr>"

definition queryer_backfilling_a :: "bulk_action_status \<Rightarrow> instance_queryer" where
  "queryer_backfilling_a s =
     \<lparr> queryer_instance = instance_with [backfill_of_a s], get_dynamic_partitions = (\<lambda>_. []),
       is_reconciled = (\<lambda>_ _. False),
       get_latest_materialization_record = (\<lambda>_ _. None),
       is_asset_planned_for_run = (\<lambda>_ _. False),
       get_materialized_partitions = (\<lambda>_ _. []) \<rparr>"

definition request_of_a :: run_request where
  "request_of_a = \<lparr> asset_selection = [[''a'']], run_partition_key = None, tags = [] \<rparr>"

definition cursor_with_root_a :: asset_reconciliation_cursor where
  "cursor_with_root_a =
     \<lparr> latest_storage_id = None, materialized_or_requested_root_asset_keys = {[''a'']},
       materialized_or_requested_root_partitions_by_asset_key = Map.empty \<rparr>"

section \<open>Properties of the cursor update\<close>

lemma with_updates_cases:
  "with_updates c new rr nk np g =
    (case merge_root_partitions g (materialized_or_requested_root_partitions_by_asset_key c) np
            (fst (requested_roots g rr)) of
       Inl e \<Rightarrow> Inl e
     | Inr m \<Rightarrow>
         if truthy_int new \<and> truthy_int (latest_storage_id c) \<and> the new < the (latest_storage_id c)
         then Inl CheckError
         else Inr \<lparr> latest_storage_id = or_int new (latest_storage_id c),
                    materialized_or_requested_root_asset_keys =
                      materialized_or_requested_root_asset_keys c \<union> nk \<union> snd (requested_roots g rr),
                    materialized_or_requested_root_partitions_by_asset_key = m \<rparr>)"
  by (simp add: with_updates_def Let_def not_le split: sum.splits)

lemma merge_root_partitions_error:
  "merge_root_partitions g prior newly requested = Inl e \<Longrightarrow> e = AttributeError"
  by (auto simp: merge_root_partitions_def split: if_splits)

lemma merge_root_partitions_returns:
  "\<not> partitions_def_missing g prior newly requested \<Longrightarrow>
     \<exists>m. merge_root_partitions g prior newly requested = Inr m"
  by (simp add: merge_root_partitions_def)

lemma with_updates_keeps_set:
  "with_updates c new rr nk np g = Inr c' \<Longrightarrow> latest_storage_id c \<noteq> None \<Longrightarrow>
     latest_storage_id c' \<noteq> None"
  unfolding with_updates_cases
  by (auto simp: truthy_int_def or_int_def split: sum.splits if_splits option.splits)

lemma with_updates_sequence_keeps_set:
  "with_updates_sequence c us = Inr c' \<Longrightarrow> latest_storage_id c \<noteq> None \<Longrightarrow>
     latest_storage_id c' \<noteq> None"
proof (induction us arbitrary: c)
  case Nil
  then show ?case by simp
next
  case (Cons u us)
  then show ?case
    by (auto split: sum.splits dest: with_updates_keeps_set)
qed

lemmas cursor_test_defs =
  with_updates_def requested_roots_def merge_root_partitions_def partitions_def_missing_def
  truthy_int_def or_int_def cursor_at_def graph_without_partitions_def update_to_def

text \<open>
  On storage ids that are not zero the check does what its message says: it fails
  exactly when the bookkeeping of the root partitions succeeded and the new watermark is
  below the previous one, a new watermark that is \<^verbatim>\<open>None\<close> or \<^verbatim>\<open>0\<close> keeps the previous
  one, and an update that returns never lowers a watermark that is set and not zero.
\<close>

lemma with_updates_check_on_truthy_ids:
  "(with_updates c new rr nk np g = Inl CheckError \<longleftrightarrow>
      \<not> partitions_def_missing g (materialized_or_requested_root_partitions_by_asset_key c) np
           (fst (requested_roots g rr))
      \<and> (\<exists>n p. new = Some n \<and> latest_storage_id c = Some p \<and> n \<noteq> 0 \<and> p \<noteq> 0 \<and> n < p))
   \<and> (\<forall>c'. with_updates c new rr nk np g = Inr c' \<and> (new = None \<or> new = Some 0)
          \<longrightarrow> latest_storage_id c' = latest_storage_id c)
   \<and> (\<forall>c' p. with_updates c new rr nk np g = Inr c' \<and> latest_storage_id c = Some p \<and> p \<noteq> 0
          \<longrightarrow> (\<exists>r. latest_storage_id c' = Some r \<and> p \<le> r))"
proof -
  have "with_updates c new rr nk np g = Inl CheckError \<longleftrightarrow>
      \<not> partitions_def_missing g (materialized_or_requested_root_partitions_by_asset_key c) np
           (fst (requested_roots g rr))
      \<and> (\<exists>n p. new = Some n \<and> latest_storage_id c = Some p \<and> n \<noteq> 0 \<and> p \<noteq> 0 \<and> n < p)"
    unfolding with_updates_cases
    by (auto simp: merge_root_partitions_def truthy_int_def split: sum.splits if_splits option.splits)
  moreover have "latest_storage_id c' = latest_storage_id c"
    if "with_updates c new rr nk np g = Inr c'" "new = None \<or> new = Some 0" for c'
    using that unfolding with_updates_cases
    by (auto simp: truthy_int_def or_int_def split: sum.splits if_splits)
  moreover have "\<exists>r. latest_storage_id c' = Some r \<and> p \<le> r"
    if "with_updates c new rr nk np g = Inr c'" "latest_storage_id c = Some p" "p \<noteq> 0" for c' p
    using that unfolding with_updates_cases
    by (auto simp: truthy_int_def or_int_def split: sum.splits if_splits option.splits)
  ultimately show ?thesis by blast
qed


text \<open>
  C10: an update whose new storage id is \<^verbatim>\<open>None\<close> never fails the watermark check,
  returns whenever the bookkeeping of the root partitions succeeds, and the cursor it
  returns has the previous watermark; a watermark that is set stays set along every
  sequence of updates; and the watermark check fails only when both the previous
  and the new watermark are set.
\<close>

theorem with_updates_none_keeps_watermark:
  "(with_updates c None rr nk np g \<noteq> Inl CheckError)
   \<and> (\<not> partitions_def_missing g (materialized_or_requested_root_partitions_by_asset_key c) np
           (fst (requested_roots g rr))
        \<longrightarrow> (\<exists>c'. with_updates c None rr nk np g = Inr c'))
   \<and> (\<forall>c'. with_updates c None rr nk np g = Inr c' \<longrightarrow> latest_storage_id c' = latest_storage_id c)
   \<and> (\<forall>c'. with_updates_sequence c us = Inr c' \<and> latest_storage_id c \<noteq> None
          \<longrightarrow> latest_storage_id c' \<noteq> None)
   \<and> (with_updates c new rr nk np g = Inl CheckError
        \<longrightarrow> new \<noteq> None \<and> latest_storage_id c \<noteq> None)"
proof -
  have "with_updates c None rr nk np g \<noteq> Inl CheckError"
    unfolding with_updates_cases
    by (auto simp: truthy_int_def split: sum.splits dest: merge_root_partitions_error)
  moreover have "\<exists>c'. with_updates c None rr nk np g = Inr c'"
    if "\<not> partitions_def_missing g (materialized_or_requested_root_partitions_by_asset_key c) np
           (fst (requested_roots g rr))"
    using merge_root_partitions_returns [OF that] unfolding with_updates_cases
    by (auto simp: truthy_int_def)
  moreover have "latest_storage_id c' = latest_storage_id c"
    if "with_updates c None rr nk np g = Inr c'" for c'
    using that unfolding with_updates_cases
    by (auto simp: truthy_int_def or_int_def split: sum.splits)
  moreover have "latest_storage_id c' \<noteq> None"
    if "with_updates_sequence c us = Inr c'" "latest_storage_id c \<noteq> None" for c'
    using that by (rule with_updates_sequence_keeps_set)
  moreover have "new \<noteq> None \<and> latest_storage_id c \<noteq> None"
    if "with_updates c new rr nk np g = Inl CheckError"
    using that unfolding with_updates_cases
    by (auto simp: truthy_int_def split: sum.splits if_splits option.splits
             dest: merge_root_partitions_error)
  ultimately show ?thesis by blast
qed

theorem with_updates_none_keeps_watermark_witness:
  "with_updates (cursor_at 5) None [] {} Map.empty graph_without_partitions = Inr (cursor_at 5)
   \<and> latest_storage_id (cursor_at 5) = Some 5
   \<and> with_updates_sequence (cursor_at 5) [update_to None, update_to (Some 0), update_to (Some 7)]
       = Inr (cursor_at 7)
   \<and> latest_storage_id (cursor_at 7) \<noteq> None
   \<and> with_updates (cursor_at 5) (Some 3) [] {} Map.empty graph_without_partitions = Inl CheckError"
  using with_updates_none_keeps_watermark
          [of "cursor_at 5" "[]" "{}" Map.empty graph_without_partitions
              "[update_to None, update_to (Some 0), update_to (Some 7)]" "Some 3"]
  by (simp add: cursor_test_defs)

section \<open>Properties of the acceptance predicate\<close>

text \<open>
  C1: \<^verbatim>\<open>should_reconcile\<close> accepts a group of candidates only if every parent of every
  candidate is in the set to reconcile with the same partitioning and the same partition
  key as the candidate, or is reconciled according to the instance queryer, and some
  candidate of the group is not reconciled; when a parent of a candidate meets neither
  condition, or every candidate is reconciled, the whole group is rejected.
\<close>

theorem should_reconcile_only_if:
  "(should_reconcile g q t fresh backfill targets cu tr \<longrightarrow>
      (\<forall>c \<in> set cu. \<forall>p \<in> set (get_parents_partitions g (get_dynamic_partitions q) (asset_key c) (partition_key c)).
          (p \<in> tr \<and> have_same_partitioning g (asset_key p) (asset_key c) \<and> partition_key p = partition_key c)
          \<or> is_reconciled q p g)
      \<and> (\<exists>c \<in> set cu. \<not> is_reconciled q c g))
   \<and> ((\<exists>c \<in> set cu. \<exists>p \<in> set (get_parents_partitions g (get_dynamic_partitions q) (asset_key c) (partition_key c)).
          \<not> (p \<in> tr \<and> have_same_partitioning g (asset_key p) (asset_key c) \<and> partition_key p = partition_key c)
          \<and> \<not> is_reconciled q p g)
        \<or> (\<forall>c \<in> set cu. is_reconciled q c g)
       \<longrightarrow> \<not> should_reconcile g q t fresh backfill targets cu tr)"
  by (auto simp: should_reconcile_def parents_will_be_reconciled_def list_all_iff list_ex_iff split: if_splits)

lemmas graph_test_defs = should_reconcile_def parents_will_be_reconciled_def
  candidates_unit_within_allowable_time_window_def graph_a_b_def queryer_a_reconciled_def
  unit_a_def unit_b_def

theorem should_reconcile_only_if_witness:
  "should_reconcile graph_a_b (queryer_a_reconciled []) 0 {} {} {[''b'']} [unit_b] {}
   \<and> is_reconciled (queryer_a_reconciled []) unit_a graph_a_b
   \<and> \<not> is_reconciled (queryer_a_reconciled []) unit_b graph_a_b
   \<and> \<not> should_reconcile graph_a_b (queryer_a_reconciled []) 0 {} {} {[''a'']} [unit_a] {}"
  using should_reconcile_only_if [of graph_a_b "queryer_a_reconciled []" 0 "{}" "{}" "{[''b'']}" "[unit_b]" "{}"]
    should_reconcile_only_if [of graph_a_b "queryer_a_reconciled []" 0 "{}" "{}" "{[''a'']}" "[unit_a]" "{}"]
  by (simp add: graph_test_defs)

section \<open>Properties of the backfill exclusion\<close>

lemma union_targets:
  "fold_result (\<lambda>b result. case serialized_asset_backfill_data b of None \<Rightarrow> Inl CheckError
                    | Some target_subset \<Rightarrow> Inr (result \<union> target_subset)) bs R =
   (if \<exists>b \<in> set bs. serialized_asset_backfill_data b = None then Inl CheckError
    else Inr (R \<union> {u. \<exists>b \<in> set bs. \<exists>T. serialized_asset_backfill_data b = Some T \<and> u \<in> T}))"
proof (induction bs arbitrary: R)
  case Nil
  then show ?case by simp
next
  case (Cons b bs)
  show ?case
  proof (cases "serialized_asset_backfill_data b")
    case None
    then show ?thesis by simp
  next
    case (Some T)
    then show ?thesis by (auto simp: Cons.IH)
  qed
qed

lemma active_backfill_subset:
  "get_active_backfill_target_asset_graph_subset inst g =
    (if \<exists>b \<in> set (backfills inst). status b = REQUESTED \<and> is_asset_backfill b \<and> serialized_asset_backfill_data b = None
     then Inl CheckError
     else Inr {u. \<exists>b \<in> set (backfills inst). status b = REQUESTED \<and> is_asset_backfill b
                 \<and> (\<exists>T. serialized_asset_backfill_data b = Some T \<and> u \<in> T)})"
  unfolding get_active_backfill_target_asset_graph_subset_def Let_def union_targets get_backfills_def
  by auto

lemma should_reconcile_excluded:
  "u \<in> set cu \<Longrightarrow> u \<in> S \<or> u \<in> fresh \<or> asset_key u \<notin> targets \<Longrightarrow>
    \<not> should_reconcile g q t fresh S targets cu tr"
  by (auto simp: should_reconcile_def list_ex_iff)

lemma should_reconcile_not_covered:
  "\<forall>u \<in> set cu. u \<notin> S \<Longrightarrow>
    should_reconcile g q t fresh S targets cu tr = should_reconcile g q t fresh {} targets cu tr"
  by (auto simp: should_reconcile_def list_ex_iff)

subsection \<open>The closure holds accepted groups only, and every seed accepted at the start\<close>

lemma should_reconcile_mono:
  assumes "A \<subseteq> B" and "should_reconcile g q t fresh backfill targets cu A"
  shows "should_reconcile g q t fresh backfill targets cu B"
proof -
  have "parents_will_be_reconciled g q c B" if "parents_will_be_reconciled g q c A" for c
    using that assms(1) unfolding parents_will_be_reconciled_def list_all_iff by blast
  then show ?thesis
    using assms(2) unfolding should_reconcile_def list_all_iff by (auto split: if_splits)
qed

lemma unit_in_candidates_unit: "u \<in> set (candidates_unit_of g u)"
  by (cases u) (simp add: candidates_unit_of_def)

lemma bfs_loop_accepted_only:
  assumes acc: "\<And>cu res. condition_fn cu res \<Longrightarrow> \<forall>u \<in> set cu. P u"
    and run: "bfs_loop g store condition_fn queue all_nodes result = Some T"
  shows "(\<forall>u \<in> result. P u) \<longrightarrow> (\<forall>u \<in> T. P u)"
proof -
  let ?Q = "\<lambda>(g' :: asset_graph) (store' :: dynamic_partitions_store) f
              (queue :: asset_key_partition_key list)
              (all_nodes :: asset_key_partition_key set) result T.
     f = condition_fn \<longrightarrow> (\<forall>u \<in> result. P u) \<longrightarrow> (\<forall>u \<in> T. P u)"
  have "?Q g store condition_fn queue all_nodes result T"
  proof (rule bfs_loop.raw_induct [where P = ?Q, OF _ run], intro impI)
    fix bfs g' store' f queue all_nodes result T
    assume IH: "\<And>g' store' f queue all_nodes result T.
        bfs g' store' f queue all_nodes result = Some T \<Longrightarrow> ?Q g' store' f queue all_nodes result T"
      and step: "(case queue of
          [] \<Rightarrow> Some result
        | u # rest \<Rightarrow>
            if f (candidates_unit_of g' u) result
            then bfs g' store' f (rest @ unseen_children g' store' (candidates_unit_of g' u) all_nodes)
                   (all_nodes \<union> set (unseen_children g' store' (candidates_unit_of g' u) all_nodes))
                   (result \<union> set (candidates_unit_of g' u))
            else bfs g' store' f rest all_nodes result) = Some T"
      and eq: "f = condition_fn" and init: "\<forall>u \<in> result. P u"
    show "\<forall>u \<in> T. P u"
    proof (cases queue)
      case Nil
      with step init show ?thesis by simp
    next
      case (Cons u rest)
      show ?thesis
      proof (cases "condition_fn (candidates_unit_of g' u) result")
        case True
        with step Cons eq have "bfs g' store' condition_fn
             (rest @ unseen_children g' store' (candidates_unit_of g' u) all_nodes)
             (all_nodes \<union> set (unseen_children g' store' (candidates_unit_of g' u) all_nodes))
             (result \<union> set (candidates_unit_of g' u)) = Some T" by simp
        from IH [OF this] have
          "(\<forall>v \<in> result \<union> set (candidates_unit_of g' u). P v) \<longrightarrow> (\<forall>v \<in> T. P v)" by simp
        moreover have "\<forall>v \<in> set (candidates_unit_of g' u). P v" using acc [OF True] .
        ultimately show ?thesis using init by blast
      next
        case False
        with step Cons eq have "bfs g' store' condition_fn rest all_nodes result = Some T" by simp
        from IH [OF this] init show ?thesis by simp
      qed
    qed
  qed
  then show ?thesis by simp
qed

lemma bfs_loop_accepts:
  assumes mono: "\<And>cu A B. A \<subseteq> B \<Longrightarrow> condition_fn cu A \<Longrightarrow> condition_fn cu B"
    and run: "bfs_loop g store condition_fn queue all_nodes result = Some T"
  shows "finite result \<longrightarrow> finite T"
    and "\<forall>u \<in> set queue. condition_fn (candidates_unit_of g u) {} \<longrightarrow> u \<in> T"
proof -
  let ?P = "\<lambda>(g' :: asset_graph) (store' :: dynamic_partitions_store) f queue
              (all_nodes :: asset_key_partition_key set) result T.
     g' = g \<and> f = condition_fn \<longrightarrow>
       (finite result \<longrightarrow> finite T) \<and> result \<subseteq> T \<and>
       (\<forall>u \<in> set queue. condition_fn (candidates_unit_of g u) {} \<longrightarrow> u \<in> T)"
  have "?P g store condition_fn queue all_nodes result T"
  proof (rule bfs_loop.raw_induct [where P = ?P, OF _ run], intro impI, elim conjE)
    fix bfs g' store' f queue all_nodes result T
    assume IH: "\<And>g' store' f queue all_nodes result T.
        bfs g' store' f queue all_nodes result = Some T \<Longrightarrow> ?P g' store' f queue all_nodes result T"
      and step: "(case queue of
          [] \<Rightarrow> Some result
        | u # rest \<Rightarrow>
            if f (candidates_unit_of g' u) result
            then bfs g' store' f (rest @ unseen_children g' store' (candidates_unit_of g' u) all_nodes)
                   (all_nodes \<union> set (unseen_children g' store' (candidates_unit_of g' u) all_nodes))
                   (result \<union> set (candidates_unit_of g' u))
            else bfs g' store' f rest all_nodes result) = Some T"
      and eq: "g' = g" "f = condition_fn"
    show "(finite result \<longrightarrow> finite T) \<and> result \<subseteq> T \<and>
       (\<forall>u \<in> set queue. condition_fn (candidates_unit_of g u) {} \<longrightarrow> u \<in> T)"
    proof (cases queue)
      case Nil
      with step show ?thesis by simp
    next
      case (Cons u rest)
      show ?thesis
      proof (cases "condition_fn (candidates_unit_of g u) result")
        case True
        with step Cons eq have "bfs g store' condition_fn
             (rest @ unseen_children g store' (candidates_unit_of g u) all_nodes)
             (all_nodes \<union> set (unseen_children g store' (candidates_unit_of g u) all_nodes))
             (result \<union> set (candidates_unit_of g u)) = Some T" by simp
        from IH [OF this] have
          fin: "finite (result \<union> set (candidates_unit_of g u)) \<longrightarrow> finite T" and
          sub: "result \<union> set (candidates_unit_of g u) \<subseteq> T" and
          rest: "\<forall>v \<in> set (rest @ unseen_children g store' (candidates_unit_of g u) all_nodes).
                   condition_fn (candidates_unit_of g v) {} \<longrightarrow> v \<in> T"
          by simp_all
        have "u \<in> T" using sub unit_in_candidates_unit [of u g] by blast
        moreover have "finite result \<longrightarrow> finite T" using fin by simp
        ultimately show ?thesis using sub rest Cons by auto
      next
        case False
        with step Cons eq have "bfs g store' condition_fn rest all_nodes result = Some T" by simp
        from IH [OF this] have
          fin: "finite result \<longrightarrow> finite T" and sub: "result \<subseteq> T" and
          rest: "\<forall>v \<in> set rest. condition_fn (candidates_unit_of g v) {} \<longrightarrow> v \<in> T"
          by simp_all
        have "\<not> condition_fn (candidates_unit_of g u) {}"
          using False mono [of "{}" result "candidates_unit_of g u"] by blast
        then show ?thesis using fin sub rest Cons by auto
      qed
    qed
  qed
  then show "finite result \<longrightarrow> finite T"
    and "\<forall>u \<in> set queue. condition_fn (candidates_unit_of g u) {} \<longrightarrow> u \<in> T"
    by simp_all
qed

lemma reconcile_returns:
  assumes "reconcile env resolver g sel q cursor run_tags t = Some (Inr (run_requests, cursor'))"
  shows "\<exists>fresh eventual to_reconcile nk np new_id.
      determine_asset_partitions_to_reconcile_for_freshness (cron_iterator env) resolver g sel t
        = Some (fresh, eventual)
    \<and> determine_asset_partitions_to_reconcile env q cursor sel g eventual t
        = Some (Inr (to_reconcile, nk, np, new_id))
    \<and> build_run_requests env (iteration_order env (to_reconcile \<union> fresh)) g run_tags
        = Inr run_requests
    \<and> with_updates cursor new_id run_requests nk np g = Inr cursor'"
  using assms unfolding reconcile_def
  by (auto split: option.splits sum.splits prod.splits)

lemma determine_returns:
  assumes "determine_asset_partitions_to_reconcile env q cursor sel g eventual t
        = Some (Inr (to_reconcile, nk, np, new_id))"
  shows "\<exists>never stale S.
      find_never_materialized_or_requested_root_asset_partitions q cursor sel g t
        = Inr (never, nk, np)
    \<and> find_parent_materialized_asset_partitions q (latest_storage_id cursor) sel g
         (can_reconcile_fn g t) = Inr (stale, new_id)
    \<and> get_active_backfill_target_asset_graph_subset (queryer_instance q) g = Inr S
    \<and> bfs_loop g (get_dynamic_partitions q)
         (should_reconcile g q t eventual S (target_asset_keys sel))
         (iteration_order env (never \<union> stale)) (set (iteration_order env (never \<union> stale))) {}
        = Some to_reconcile"
  using assms unfolding determine_asset_partitions_to_reconcile_def bfs_filter_asset_partitions_def
  by (auto split: option.splits sum.splits prod.splits)


lemmas tick_test_defs = graph_fresh_a_def selection_a_def queryer_without_records_def
  resolver_without_data_def test_collaborators_def request_of_a_def cursor_with_root_a_def
  unit_a_def instance_with_def policy_without_cron_def at_09_00_def empty_def
  queryer_backfilling_a_def backfill_of_a_def graph_without_partitions_def

lemma freshness_selects_a:
  "determine_asset_partitions_to_reconcile_for_freshness daily_cron_iterator resolver_without_data
     graph_fresh_a selection_a at_09_00 = Some ({unit_a}, {})"
  by (simp add: determine_asset_partitions_to_reconcile_for_freshness_def freshness_step_def
        get_execution_period_for_policies_def get_execution_period_for_policy_def
        max_present_def min_default_def truthy_period_def tick_test_defs)

lemma freshness_selects_nothing:
  "determine_asset_partitions_to_reconcile_for_freshness daily_cron_iterator resolver_without_data
     graph_without_partitions selection_a at_09_00 = Some ({}, {})"
  by (simp add: determine_asset_partitions_to_reconcile_for_freshness_def tick_test_defs)

lemma active_backfill_of_a:
  "get_active_backfill_target_asset_graph_subset
     (queryer_instance (queryer_backfilling_a REQUESTED)) g = Inr {unit_a}"
  "get_active_backfill_target_asset_graph_subset
     (queryer_instance (queryer_backfilling_a CANCELED)) g = Inr {}"
  by (simp_all add: get_active_backfill_target_asset_graph_subset_def get_backfills_def
        tick_test_defs)

lemma closure_under_backfill:
  "determine_asset_partitions_to_reconcile test_collaborators (queryer_backfilling_a REQUESTED) empty
     selection_a graph_fresh_a {} at_09_00 = Some (Inr ({}, {}, Map.empty, None))"
  "determine_asset_partitions_to_reconcile test_collaborators (queryer_backfilling_a REQUESTED) empty
     selection_a graph_without_partitions {} at_09_00 = Some (Inr ({}, {}, Map.empty, None))"
  unfolding determine_asset_partitions_to_reconcile_def bfs_filter_asset_partitions_def
    active_backfill_of_a
   apply (simp_all add: find_never_materialized_or_requested_root_asset_partitions_def scan_root_def
        was_previously_materialized_or_requested_def
        find_parent_materialized_asset_partitions_def scan_parent_def tick_test_defs)
   apply (subst bfs_loop.simps)
   apply (simp add: should_reconcile_def parents_will_be_reconciled_def candidates_unit_of_def
        candidates_unit_within_allowable_time_window_def unseen_children_def)
   apply (subst bfs_loop.simps)
   apply simp
  apply (subst bfs_loop.simps)
  apply (simp add: should_reconcile_def parents_will_be_reconciled_def candidates_unit_of_def
        candidates_unit_within_allowable_time_window_def unseen_children_def)
  apply (subst bfs_loop.simps)
  apply simp
  done

lemma closure_after_backfill:
  "determine_asset_partitions_to_reconcile test_collaborators (queryer_backfilling_a CANCELED) empty
     selection_a graph_without_partitions {} at_09_00 = Some (Inr ({unit_a}, {}, Map.empty, None))"
  unfolding determine_asset_partitions_to_reconcile_def bfs_filter_asset_partitions_def
    active_backfill_of_a
  apply (simp add: find_never_materialized_or_requested_root_asset_partitions_def scan_root_def
        was_previously_materialized_or_requested_def
        find_parent_materialized_asset_partitions_def scan_parent_def tick_test_defs)
  apply (subst bfs_loop.simps)
  apply (simp add: should_reconcile_def parents_will_be_reconciled_def candidates_unit_of_def
        candidates_unit_within_allowable_time_window_def unseen_children_def)
  apply (subst bfs_loop.simps)
  apply simp
  done

lemma requests_for_a:
  "build_run_requests test_collaborators [unit_a] graph_fresh_a None = Inr [request_of_a]"
  "build_run_requests test_collaborators [unit_a] graph_without_partitions None = Inr [request_of_a]"
  "build_run_requests test_collaborators [] g None = Inr []"
  by (simp_all add: build_run_requests_def add_to_group_def run_request_of_group_def tick_test_defs)

lemma update_with_request_of_a:
  "with_updates empty None [request_of_a] {} Map.empty graph_fresh_a = Inr cursor_with_root_a"
  "with_updates empty None [request_of_a] {} Map.empty graph_without_partitions = Inr cursor_with_root_a"
  "with_updates empty None [] {} Map.empty graph_without_partitions = Inr empty"
  by (simp_all add: with_updates_def requested_roots_def add_requested_def merge_root_partitions_def
        partitions_def_missing_def truthy_int_def truthy_str_def or_int_def tick_test_defs)

lemma test_iteration:
  "cron_iterator test_collaborators = daily_cron_iterator"
  "iteration_order test_collaborators {unit_a} = [unit_a]"
  "iteration_order test_collaborators {} = []"
  by (simp_all add: test_collaborators_def)

text \<open>
  C7, as stated, fails: the selection of the freshness scheduler is requested whatever
  the backfills are. The root \<open>a\<close> has a freshness policy and no data yet, and an asset
  backfill in status \<^verbatim>\<open>REQUESTED\<close> targets it; the closure rejects \<open>a\<close>, and the tick
  requests \<open>a\<close> all the same.
\<close>

theorem freshness_selection_requested_under_backfill:
  "get_active_backfill_target_asset_graph_subset
     (queryer_instance (queryer_backfilling_a REQUESTED)) graph_fresh_a = Inr {unit_a}
   \<and> backfills (queryer_instance (queryer_backfilling_a REQUESTED)) = [backfill_of_a REQUESTED]
   \<and> status (backfill_of_a REQUESTED) = REQUESTED
   \<and> reconcile test_collaborators resolver_without_data graph_fresh_a selection_a
        (queryer_backfilling_a REQUESTED) empty None at_09_00
       = Some (Inr ([request_of_a], cursor_with_root_a))
   \<and> asset_selection request_of_a = [asset_key unit_a]
   \<and> run_partition_key request_of_a = partition_key unit_a"
proof -
  have "reconcile test_collaborators resolver_without_data graph_fresh_a selection_a
        (queryer_backfilling_a REQUESTED) empty None at_09_00
       = Some (Inr ([request_of_a], cursor_with_root_a))"
    unfolding reconcile_def test_iteration freshness_selects_a
    by (simp add: closure_under_backfill test_iteration requests_for_a update_with_request_of_a)
  then show ?thesis
    by (simp add: active_backfill_of_a)
       (simp add: queryer_backfilling_a_def instance_with_def backfill_of_a_def request_of_a_def
          unit_a_def)
qed

text \<open>
  C7 (amended): in a tick that returns, the subset of active backfill targets holds
  exactly the units in the target subset of some asset backfill whose status is
  \<^verbatim>\<open>REQUESTED\<close>; no unit of the decision set of the closure is in that subset, in the
  eventual selection of the freshness scheduler or outside the target selection; the
  run requests are built from the decision set together with the selection of the
  freshness scheduler; and a seed of the closure (a root never materialized or requested,
  or a stale candidate) whose group has no unit in the subset (the backfills that covered
  it being completed, failed or canceled) is in the decision set whenever the acceptance
  predicate accepts its group at the start with no backfill at all.
\<close>

theorem backfill_targets_excluded_from_closure:
  assumes "reconcile env resolver g sel q cursor run_tags t = Some (Inr (run_requests, cursor'))"
  shows "\<exists>S fresh eventual never stale to_reconcile nk np new_id.
      get_active_backfill_target_asset_graph_subset (queryer_instance q) g = Inr S
    \<and> (\<forall>u. u \<in> S \<longleftrightarrow>
          (\<exists>b \<in> set (backfills (queryer_instance q)). status b = REQUESTED \<and> is_asset_backfill b
              \<and> (\<exists>T. serialized_asset_backfill_data b = Some T \<and> u \<in> T)))
    \<and> determine_asset_partitions_to_reconcile_for_freshness (cron_iterator env) resolver g sel t
        = Some (fresh, eventual)
    \<and> find_never_materialized_or_requested_root_asset_partitions q cursor sel g t
        = Inr (never, nk, np)
    \<and> find_parent_materialized_asset_partitions q (latest_storage_id cursor) sel g
         (can_reconcile_fn g t) = Inr (stale, new_id)
    \<and> determine_asset_partitions_to_reconcile env q cursor sel g eventual t
        = Some (Inr (to_reconcile, nk, np, new_id))
    \<and> (\<forall>u \<in> to_reconcile. u \<notin> S \<and> u \<notin> eventual \<and> asset_key u \<in> target_asset_keys sel)
    \<and> build_run_requests env (iteration_order env (to_reconcile \<union> fresh)) g run_tags
        = Inr run_requests
    \<and> (\<forall>u \<in> set (iteration_order env (never \<union> stale)).
          (\<forall>v \<in> set (candidates_unit_of g u). v \<notin> S)
          \<and> should_reconcile g q t eventual {} (target_asset_keys sel) (candidates_unit_of g u) {}
          \<longrightarrow> u \<in> to_reconcile)"
proof -
  from reconcile_returns [OF assms] obtain fresh eventual to_reconcile nk np new_id where
    fresh: "determine_asset_partitions_to_reconcile_for_freshness (cron_iterator env) resolver g sel t
        = Some (fresh, eventual)"
    and det: "determine_asset_partitions_to_reconcile env q cursor sel g eventual t
        = Some (Inr (to_reconcile, nk, np, new_id))"
    and req: "build_run_requests env (iteration_order env (to_reconcile \<union> fresh)) g run_tags
        = Inr run_requests"
    by blast
  from determine_returns [OF det] obtain never stale S where
    never: "find_never_materialized_or_requested_root_asset_partitions q cursor sel g t
        = Inr (never, nk, np)"
    and stale: "find_parent_materialized_asset_partitions q (latest_storage_id cursor) sel g
         (can_reconcile_fn g t) = Inr (stale, new_id)"
    and S: "get_active_backfill_target_asset_graph_subset (queryer_instance q) g = Inr S"
    and bfs: "bfs_loop g (get_dynamic_partitions q)
         (should_reconcile g q t eventual S (target_asset_keys sel))
         (iteration_order env (never \<union> stale)) (set (iteration_order env (never \<union> stale))) {}
        = Some to_reconcile"
    by blast
  let ?cond = "should_reconcile g q t eventual S (target_asset_keys sel)"
  have Sdef: "u \<in> S \<longleftrightarrow>
          (\<exists>b \<in> set (backfills (queryer_instance q)). status b = REQUESTED \<and> is_asset_backfill b
              \<and> (\<exists>T. serialized_asset_backfill_data b = Some T \<and> u \<in> T))" for u
    using S by (auto simp: active_backfill_subset split: if_splits)
  have accepted: "\<forall>u \<in> set cu. u \<notin> S \<and> u \<notin> eventual \<and> asset_key u \<in> target_asset_keys sel"
    if "?cond cu res" for cu res
  proof
    fix u assume "u \<in> set cu"
    with that show "u \<notin> S \<and> u \<notin> eventual \<and> asset_key u \<in> target_asset_keys sel"
      using should_reconcile_excluded [of u cu S eventual "target_asset_keys sel" g q t res]
      by blast
  qed
  have excl: "\<forall>u \<in> to_reconcile. u \<notin> S \<and> u \<notin> eventual \<and> asset_key u \<in> target_asset_keys sel"
    using bfs_loop_accepted_only [of ?cond
            "\<lambda>u. u \<notin> S \<and> u \<notin> eventual \<and> asset_key u \<in> target_asset_keys sel", OF accepted bfs]
    by simp
  have seeds: "\<forall>u \<in> set (iteration_order env (never \<union> stale)).
      ?cond (candidates_unit_of g u) {} \<longrightarrow> u \<in> to_reconcile"
    by (rule bfs_loop_accepts(2) [where condition_fn = ?cond, OF _ bfs])
       (rule should_reconcile_mono)
  have elig: "u \<in> to_reconcile"
    if u: "u \<in> set (iteration_order env (never \<union> stale))"
      and free: "\<forall>v \<in> set (candidates_unit_of g u). v \<notin> S"
      and ok: "should_reconcile g q t eventual {} (target_asset_keys sel) (candidates_unit_of g u) {}"
    for u
  proof -
    from ok have "?cond (candidates_unit_of g u) {}"
      using should_reconcile_not_covered [OF free] by simp
    with seeds u show ?thesis by blast
  qed
  show ?thesis using S Sdef fresh never stale det excl req elig by blast
qed


lemma tick_under_backfill:
  "reconcile test_collaborators resolver_without_data graph_without_partitions selection_a
        (queryer_backfilling_a REQUESTED) empty None at_09_00 = Some (Inr ([], empty))"
  unfolding reconcile_def test_iteration freshness_selects_nothing
  by (simp add: closure_under_backfill test_iteration requests_for_a update_with_request_of_a)

lemma tick_after_backfill:
  "reconcile test_collaborators resolver_without_data graph_without_partitions selection_a
        (queryer_backfilling_a CANCELED) empty None at_09_00
     = Some (Inr ([request_of_a], cursor_with_root_a))"
  unfolding reconcile_def test_iteration freshness_selects_nothing
  by (simp add: closure_after_backfill test_iteration requests_for_a update_with_request_of_a)

theorem backfill_targets_excluded_from_closure_witness:
  "reconcile test_collaborators resolver_without_data graph_without_partitions selection_a
        (queryer_backfilling_a REQUESTED) empty None at_09_00 = Some (Inr ([], empty))
   \<and> determine_asset_partitions_to_reconcile test_collaborators (queryer_backfilling_a REQUESTED)
        empty selection_a graph_without_partitions {} at_09_00
       = Some (Inr ({}, {}, Map.empty, None))
   \<and> get_active_backfill_target_asset_graph_subset
        (queryer_instance (queryer_backfilling_a REQUESTED)) graph_without_partitions = Inr {unit_a}
   \<and> reconcile test_collaborators resolver_without_data graph_without_partitions selection_a
        (queryer_backfilling_a CANCELED) empty None at_09_00
       = Some (Inr ([request_of_a], cursor_with_root_a))
   \<and> determine_asset_partitions_to_reconcile test_collaborators (queryer_backfilling_a CANCELED)
        empty selection_a graph_without_partitions {} at_09_00
       = Some (Inr ({unit_a}, {}, Map.empty, None))
   \<and> get_active_backfill_target_asset_graph_subset
        (queryer_instance (queryer_backfilling_a CANCELED)) graph_without_partitions = Inr {}"
  using backfill_targets_excluded_from_closure [OF tick_under_backfill]
    backfill_targets_excluded_from_closure [OF tick_after_backfill]
  by (simp add: tick_under_backfill tick_after_backfill closure_under_backfill
        closure_after_backfill active_backfill_of_a)

section \<open>Properties of the allowable time window\<close>

lemmas window_test_defs = candidates_unit_within_allowable_time_window_def
  allowable_time_window_for_partitions_def_def graph_daily_def daily_partitions_def jan_3_1am_def
  truthy_str_def timedelta_days_def timedelta_resolution_def

text \<open>
  C4, as stated, fails: with daily partitions whose latest window is that of 2023-01-02,
  the partition of 2023-01-01 starts exactly one day before the latest window starts,
  and the window check rejects it, as the comment in the source intends.
\<close>

theorem day_before_latest_window_rejected:
  "get_last_partition_window daily_partitions jan_3_1am = Some (TimeWindow 86400000000 172800000000)
   \<and> window_start (time_window_for_partition_key daily_partitions ''2023-01-01'')
       = window_start (TimeWindow 86400000000 172800000000) - timedelta_days 1
   \<and> \<not> candidates_unit_within_allowable_time_window graph_daily
         [AssetKeyPartitionKey [''a''] (Some ''2023-01-01'')] jan_3_1am"
  by (simp add: window_test_defs)

text \<open>
  C4 (amended): for a group whose representative candidate is a time partition (a
  non-empty partition key of a time window partitions definition), the window check
  accepts exactly when the first and the latest partition window exist and the
  partition's window starts at or after
  \<^verbatim>\<open>max(first.start, latest.start - 1 day + resolution)\<close> and ends at or before the end of
  the latest window; so a partition that starts at the start of the latest window minus
  one day, or earlier, is rejected. The allowable window is
  \<^verbatim>\<open>[max(first.start, latest.start - 1 day + resolution), latest.end)\<close>, and none when the
  definition has no latest or no first window.
\<close>

theorem allowable_time_window_boundary:
  assumes "get_partitions_def g k = Some (TimeWindowPartitionsDefinition pd)" and "pk \<noteq> []"
  shows "(candidates_unit_within_allowable_time_window g (AssetKeyPartitionKey k (Some pk) # rest) t
          \<longleftrightarrow> (\<exists>latest earliest.
                 get_last_partition_window pd t = Some latest
               \<and> get_first_partition_window pd t = Some earliest
               \<and> max (window_start earliest) (window_start latest - timedelta_days 1 + timedelta_resolution)
                   \<le> window_start (time_window_for_partition_key pd pk)
               \<and> window_end (time_window_for_partition_key pd pk) \<le> window_end latest))
       \<and> (\<forall>latest. get_last_partition_window pd t = Some latest
             \<and> window_start (time_window_for_partition_key pd pk) \<le> window_start latest - timedelta_days 1
            \<longrightarrow> \<not> candidates_unit_within_allowable_time_window g (AssetKeyPartitionKey k (Some pk) # rest) t)
       \<and> allowable_time_window_for_partitions_def pd t =
           (case get_last_partition_window pd t of
              None \<Rightarrow> None
            | Some latest \<Rightarrow>
                (case get_first_partition_window pd t of
                   None \<Rightarrow> None
                 | Some earliest \<Rightarrow>
                     Some (TimeWindow
                       (max (window_start earliest)
                            (window_start latest - timedelta_days 1 + timedelta_resolution))
                       (window_end latest))))"
  using assms
  by (auto simp: candidates_unit_within_allowable_time_window_def
        allowable_time_window_for_partitions_def_def truthy_str_def timedelta_resolution_def
        Let_def split: option.splits)

theorem allowable_time_window_boundary_witness:
  "candidates_unit_within_allowable_time_window graph_daily
         [AssetKeyPartitionKey [''a''] (Some ''2023-01-02'')] jan_3_1am
   \<and> \<not> candidates_unit_within_allowable_time_window graph_daily
         [AssetKeyPartitionKey [''a''] (Some ''2023-01-01'')] jan_3_1am
   \<and> allowable_time_window_for_partitions_def daily_partitions jan_3_1am
       = Some (TimeWindow 1 172800000000)"
  using allowable_time_window_boundary [of graph_daily "[''a'']" daily_partitions "''2023-01-02''" "[]" jan_3_1am]
    allowable_time_window_boundary [of graph_daily "[''a'']" daily_partitions "''2023-01-01''" "[]" jan_3_1am]
  by (simp add: window_test_defs)
section \<open>Properties of the propagation staleness detector\<close>






















section \<open>Properties of the freshness policy scheduler\<close>

lemma next_required_tick_found:
  "effective_data_time < ticks (n + k) - lag \<Longrightarrow>
   (\<forall>j < k. \<not> effective_data_time < ticks (n + j) - lag) \<Longrightarrow>
   next_required_tick ticks lag effective_data_time n
     = Some (Period (ticks (n + k) - lag) (ticks (n + k)))"
proof (induction k arbitrary: n)
  case 0
  then show ?case by (subst next_required_tick.simps) simp
next
  case (Suc k)
  have first: "\<not> effective_data_time < ticks n - lag" using Suc.prems(2) [rule_format, of 0] by simp
  have "next_required_tick ticks lag effective_data_time (Suc n)
     = Some (Period (ticks (Suc n + k) - lag) (ticks (Suc n + k)))"
  proof (rule Suc.IH)
    show "effective_data_time < ticks (Suc n + k) - lag" using Suc.prems(1) by simp
    show "\<forall>j<k. \<not> effective_data_time < ticks (Suc n + j) - lag"
      using Suc.prems(2) by (metis Suc_less_eq add_Suc_shift)
  qed
  then show ?case using first by (subst next_required_tick.simps) simp
qed

lemma next_required_tick_some:
  assumes "next_required_tick ticks lag effective_data_time n = Some p"
  shows "\<exists>k. effective_data_time < ticks (n + k) - lag"
proof (rule next_required_tick.raw_induct
         [where P = "\<lambda>ticks lag e n p. \<exists>k. e < ticks (n + k) - lag", OF _ assms])
  fix f :: "(nat \<Rightarrow> int) \<Rightarrow> int \<Rightarrow> int \<Rightarrow> nat \<Rightarrow> period option" and ticks lag e n p
  assume IH: "\<And>ticks lag e n p. f ticks lag e n = Some p \<Longrightarrow> \<exists>k. e < ticks (n + k) - lag"
    and step: "(if e < ticks n - lag then Some (Period (ticks n - lag) (ticks n))
                else f ticks lag e (Suc n)) = Some p"
  show "\<exists>k. e < ticks (n + k) - lag"
  proof (cases "e < ticks n - lag")
    case True
    then have "e < ticks (n + 0) - lag" by simp
    then show ?thesis by blast
  next
    case False
    with step have "f ticks lag e (Suc n) = Some p" by simp
    from IH [OF this] obtain k where "e < ticks (Suc n + k) - lag" by blast
    then have "e < ticks (n + Suc k) - lag" by simp
    then show ?thesis by blast
  qed
qed

lemma next_required_tick_never:
  "\<forall>k. \<not> effective_data_time < ticks k - lag \<Longrightarrow>
     next_required_tick ticks lag effective_data_time 0 = None"
  using next_required_tick_some [of ticks lag effective_data_time 0] by (cases "next_required_tick ticks lag effective_data_time 0") auto

lemma next_required_tick_first:
  assumes "\<exists>k. effective_data_time < ticks k - lag"
  shows "next_required_tick ticks lag effective_data_time 0
     = Some (Period (ticks (LEAST k. effective_data_time < ticks k - lag) - lag)
                    (ticks (LEAST k. effective_data_time < ticks k - lag)))"
proof -
  define m where "m = (LEAST k. effective_data_time < ticks k - lag)"
  from assms have "effective_data_time < ticks m - lag" unfolding m_def by (rule LeastI_ex)
  then have found: "effective_data_time < ticks (0 + m) - lag" by simp
  have "\<forall>j < m. \<not> effective_data_time < ticks (0 + j) - lag"
  proof (intro allI impI)
    fix j assume "j < m"
    then have "\<not> effective_data_time < ticks j - lag" unfolding m_def by (rule not_less_Least)
    then show "\<not> effective_data_time < ticks (0 + j) - lag" by simp
  qed
  with found have "next_required_tick ticks lag effective_data_time 0
     = Some (Period (ticks (0 + m) - lag) (ticks (0 + m)))"
    by (rule next_required_tick_found)
  then show ?thesis unfolding m_def by simp
qed

lemma half_above: "b \<le> 2 * m \<Longrightarrow> m < b \<Longrightarrow> 2 * \<bar>m - b\<bar> \<le> (b::int)"
  by presburger
lemma half_below: "2 * m \<le> b \<Longrightarrow> 0 \<le> m \<Longrightarrow> 2 * \<bar>m\<bar> \<le> (b::int)"
  by presburger
lemma divide_and_round_nearest:
  assumes "0 < b"
  shows "2 * \<bar>a - divide_and_round a b * b\<bar> \<le> b"
proof -
  have m: "0 \<le> a mod b" "a mod b < b" using assms by simp_all
  have a: "a - (a div b) * b = a mod b" by (rule minus_div_mult_eq_mod)
  show ?thesis
  proof (cases "2 * (a mod b) > b \<or> (2 * (a mod b) = b \<and> (a div b) mod 2 = 1)")
    case True
    then have "divide_and_round a b = a div b + 1"
      using assms by (simp add: divide_and_round_def Let_def)
    then have "a - divide_and_round a b * b = a mod b - b"
      using a by (simp add: distrib_right)
    moreover from True have "b \<le> 2 * (a mod b)" by auto
    then have "2 * \<bar>a mod b - b\<bar> \<le> b" using m(2) by (rule half_above)
    ultimately show ?thesis by simp
  next
    case False
    then have "divide_and_round a b = a div b"
      using assms by (simp add: divide_and_round_def Let_def)
    then have "a - divide_and_round a b * b = a mod b"
      using a by simp
    moreover from False have "2 * (a mod b) \<le> b" by auto
    then have "2 * \<bar>a mod b\<bar> \<le> b" using m(1) by (rule half_below)
    ultimately show ?thesis by simp
  qed
qed

lemma nearest_nine_tenths:
  fixes A B lag r :: int
  assumes ratio: "10 * A = 9 * B + 2" and B: "0 < B"
    and near: "2 * \<bar>lag * A - r * B\<bar> \<le> B" and small: "2 * \<bar>lag\<bar> < B"
  shows "\<bar>10 * r - 9 * lag\<bar> \<le> 5"
proof -
  define u where "u = lag * A - r * B"
  define x where "x = 10 * r - 9 * lag"
  have "10 * u = lag * (10 * A) - 10 * (r * B)" unfolding u_def by (simp add: algebra_simps)
  also have "\<dots> = lag * (9 * B + 2) - 10 * (r * B)" using ratio by simp
  also have "\<dots> = 2 * lag - B * x" unfolding x_def by (simp add: algebra_simps)
  finally have eq: "B * x = 2 * lag - 10 * u" by simp
  have u: "2 * \<bar>u\<bar> \<le> B" using near unfolding u_def .
  have "B * x < B * 6" using eq u small by linarith
  then have "x < 6" using B by (simp add: mult_less_cancel_left_pos)
  moreover have "B * (- 6) < B * x" using eq u small by linarith
  then have "- 6 < x" using B by (simp only: mult_less_cancel_left_pos)
  ultimately show ?thesis unfolding x_def by linarith
qed

lemma timedelta_mul_float_0_9_bound:
  assumes "\<bar>lag\<bar> < 4503599627370496"
  shows "\<bar>10 * timedelta_mul_float float_0_9 lag - 9 * lag\<bar> \<le> 5"
proof -
  have ratio: "(10::int) * 8106479329266893 = 9 * 9007199254740992 + 2" by simp
  have pos: "(0::int) < 9007199254740992" by simp
  have near: "2 * \<bar>lag * 8106479329266893 - timedelta_mul_float float_0_9 lag * 9007199254740992\<bar>
          \<le> 9007199254740992"
    unfolding timedelta_mul_float_def float_0_9_def fst_conv snd_conv
    by (rule divide_and_round_nearest) (rule pos)
  have small: "2 * \<bar>lag\<bar> < 9007199254740992" using assms by linarith
  show ?thesis by (rule nearest_nine_tenths [OF ratio pos near small])
qed

lemmas freshness_test_defs = get_execution_period_for_policy_def
  get_execution_period_for_policies_def daily_cron_iterator_def daily_ticks_def
  policy_10_30_def policy_10_45_def policy_without_cron_def truthy_str_def
  at_08_00_def at_09_00_def at_10_00_def at_10_15_def at_10_30_def at_10_45_def

lemma period_10_30:
  "get_execution_period_for_policy daily_cron_iterator policy_10_30 (Some at_08_00) at_09_00
     = Some (Period at_10_00 at_10_30)"
  unfolding get_execution_period_for_policy_def
  by (subst next_required_tick.simps) (simp add: freshness_test_defs)

lemma period_10_45:
  "get_execution_period_for_policy daily_cron_iterator policy_10_45 (Some at_08_00) at_09_00
     = Some (Period at_10_15 at_10_45)"
  unfolding get_execution_period_for_policy_def
  by (subst next_required_tick.simps) (simp add: freshness_test_defs)

text \<open>
  C3, as stated, fails: for two policies whose execution periods are \<^verbatim>\<open>[10:00, 10:30)\<close>
  and \<^verbatim>\<open>[10:15, 10:45)\<close> the merged period starts at the later start: it is
  \<^verbatim>\<open>[10:15, 10:45)\<close>, not \<^verbatim>\<open>[10:00, 10:45)\<close>.
\<close>

theorem overlapping_periods_merge_to_later_start:
  "get_execution_period_for_policy daily_cron_iterator policy_10_30 (Some at_08_00) at_09_00
     = Some (Period at_10_00 at_10_30)
   \<and> get_execution_period_for_policy daily_cron_iterator policy_10_45 (Some at_08_00) at_09_00
     = Some (Period at_10_15 at_10_45)
   \<and> get_execution_period_for_policies daily_cron_iterator [policy_10_30, policy_10_45]
         (Some at_08_00) at_09_00
     = Some (Some (Period at_10_15 at_10_45))
   \<and> Period at_10_15 at_10_45 \<noteq> Period at_10_00 at_10_45"
proof -
  have "get_execution_period_for_policies daily_cron_iterator [policy_10_30, policy_10_45]
         (Some at_08_00) at_09_00 = Some (Some (Period at_10_15 at_10_45))"
    unfolding get_execution_period_for_policies_def
    by (simp add: period_10_30 period_10_45)
       (simp add: at_10_00_def at_10_15_def at_10_30_def at_10_45_def)
  moreover have "Period at_10_15 at_10_45 \<noteq> Period at_10_00 at_10_45"
    by (simp add: at_10_00_def at_10_15_def)
  ultimately show ?thesis using period_10_30 period_10_45 by simp
qed

text \<open>
  C3 (amended): for two policies whose execution periods are \<^verbatim>\<open>[a, b)\<close> and \<^verbatim>\<open>[c, d)\<close>
  with \<^verbatim>\<open>a <= b\<close>, \<^verbatim>\<open>c <= b <= d\<close> (as \<^verbatim>\<open>[10:00, 10:30)\<close> and \<^verbatim>\<open>[10:15, 10:45)\<close>),
  \<^verbatim>\<open>get_execution_period_for_policies\<close> returns \<^verbatim>\<open>[max(a, c), d)\<close>, here
  \<^verbatim>\<open>[10:15, 10:45)\<close>, in whichever order the set of policies is iterated.
\<close>

theorem merged_period_of_two_policies:
  assumes "get_execution_period_for_policy it p1 edt now = Some (Period a b)"
    and "get_execution_period_for_policy it p2 edt now = Some (Period c d)"
    and "a \<le> b" and "c \<le> b" and "b \<le> d"
  shows "get_execution_period_for_policies it [p1, p2] edt now = Some (Some (Period (max c a) d))
       \<and> get_execution_period_for_policies it [p2, p1] edt now = Some (Some (Period (max c a) d))"
  using assms
  by (auto simp: get_execution_period_for_policies_def max_def)

theorem merged_period_of_two_policies_witness:
  "get_execution_period_for_policies daily_cron_iterator [policy_10_30, policy_10_45]
         (Some at_08_00) at_09_00
     = Some (Some (Period at_10_15 at_10_45))
   \<and> get_execution_period_for_policies daily_cron_iterator [policy_10_45, policy_10_30]
         (Some at_08_00) at_09_00
     = Some (Some (Period at_10_15 at_10_45))
   \<and> at_10_00 \<le> at_10_30 \<and> at_10_15 \<le> at_10_30 \<and> at_10_30 \<le> at_10_45"
  using merged_period_of_two_policies [OF period_10_30 period_10_45]
  by (simp add: at_10_00_def at_10_15_def at_10_30_def at_10_45_def)

text \<open>
  C5: without an effective data time the period is \<^verbatim>\<open>[now, now]\<close>. With a cron
  schedule, and the ticks that the iterator started at the evaluation time yields, the
  function returns the period \<^verbatim>\<open>[tick - lag, tick)\<close> of the first tick whose required
  data time \<^verbatim>\<open>tick - lag\<close> exceeds the effective data time, provided there is such a
  tick; otherwise the loop never returns. Without a cron schedule the period is
  \<^verbatim>\<open>[data_time + 0.9 * lag, max(data_time + lag, now))\<close>, where \<^verbatim>\<open>0.9 * lag\<close> is the
  product that Python computes, which lies within half a microsecond of nine tenths of
  the lag for every lag below \<^verbatim>\<open>2 ** 52\<close> microseconds.
\<close>

theorem execution_period_for_policy:
  "get_execution_period_for_policy it policy None now = Some (Period now now)
   \<and> (truthy_str (cron_schedule policy) \<longrightarrow>
        (let ticks = it now (the (cron_schedule policy)) (cron_schedule_timezone policy);
             lag = maximum_lag_delta policy
         in ((\<exists>n. data_time < ticks n - lag) \<longrightarrow>
               get_execution_period_for_policy it policy (Some data_time) now
                 = Some (Period (ticks (LEAST n. data_time < ticks n - lag) - lag)
                                (ticks (LEAST n. data_time < ticks n - lag))))
            \<and> ((\<forall>n. \<not> data_time < ticks n - lag) \<longrightarrow>
               get_execution_period_for_policy it policy (Some data_time) now = None)))
   \<and> (\<not> truthy_str (cron_schedule policy) \<longrightarrow>
        get_execution_period_for_policy it policy (Some data_time) now
          = Some (Period (data_time + timedelta_mul_float float_0_9 (maximum_lag_delta policy))
                         (max (data_time + maximum_lag_delta policy) now))
        \<and> (\<bar>maximum_lag_delta policy\<bar> < 4503599627370496 \<longrightarrow>
             \<bar>10 * timedelta_mul_float float_0_9 (maximum_lag_delta policy)
                - 9 * maximum_lag_delta policy\<bar> \<le> 5))"
proof (intro conjI impI)
  show "get_execution_period_for_policy it policy None now = Some (Period now now)"
    by (simp add: get_execution_period_for_policy_def)
next
  assume cron: "truthy_str (cron_schedule policy)"
  define ticks where "ticks = it now (the (cron_schedule policy)) (cron_schedule_timezone policy)"
  define lag where "lag = maximum_lag_delta policy"
  have eq: "get_execution_period_for_policy it policy (Some data_time) now
      = next_required_tick ticks lag data_time 0"
    using cron by (simp add: get_execution_period_for_policy_def ticks_def lag_def)
  have "(\<exists>n. data_time < ticks n - lag) \<longrightarrow>
               get_execution_period_for_policy it policy (Some data_time) now
                 = Some (Period (ticks (LEAST n. data_time < ticks n - lag) - lag)
                                (ticks (LEAST n. data_time < ticks n - lag)))"
    unfolding eq using next_required_tick_first [of data_time ticks lag] by blast
  moreover have "(\<forall>n. \<not> data_time < ticks n - lag) \<longrightarrow>
               get_execution_period_for_policy it policy (Some data_time) now = None"
    unfolding eq using next_required_tick_never [of data_time ticks lag] by blast
  ultimately show "let ticks = it now (the (cron_schedule policy)) (cron_schedule_timezone policy);
             lag = maximum_lag_delta policy
         in ((\<exists>n. data_time < ticks n - lag) \<longrightarrow>
               get_execution_period_for_policy it policy (Some data_time) now
                 = Some (Period (ticks (LEAST n. data_time < ticks n - lag) - lag)
                                (ticks (LEAST n. data_time < ticks n - lag))))
            \<and> ((\<forall>n. \<not> data_time < ticks n - lag) \<longrightarrow>
               get_execution_period_for_policy it policy (Some data_time) now = None)"
    unfolding Let_def ticks_def lag_def by (rule conjI)
next
  assume "\<not> truthy_str (cron_schedule policy)"
  then show "get_execution_period_for_policy it policy (Some data_time) now
          = Some (Period (data_time + timedelta_mul_float float_0_9 (maximum_lag_delta policy))
                         (max (data_time + maximum_lag_delta policy) now))"
    by (simp add: get_execution_period_for_policy_def)
next
  assume "\<bar>maximum_lag_delta policy\<bar> < 4503599627370496"
  then show "\<bar>10 * timedelta_mul_float float_0_9 (maximum_lag_delta policy)
                - 9 * maximum_lag_delta policy\<bar> \<le> 5"
    by (rule timedelta_mul_float_0_9_bound)
qed

theorem execution_period_for_policy_witness:
  "get_execution_period_for_policy daily_cron_iterator policy_10_30 None at_09_00
     = Some (Period at_09_00 at_09_00)
   \<and> get_execution_period_for_policy daily_cron_iterator policy_10_30 (Some at_08_00) at_09_00
     = Some (Period at_10_00 at_10_30)
   \<and> get_execution_period_for_policy daily_cron_iterator policy_without_cron (Some at_08_00) at_09_00
     = Some (Period 30420000000 at_09_00)
   \<and> truthy_str (cron_schedule policy_10_30) \<and> \<not> truthy_str (cron_schedule policy_without_cron)
   \<and> \<bar>maximum_lag_delta policy_without_cron\<bar> < 4503599627370496
   \<and> timedelta_mul_float float_0_9 (maximum_lag_delta policy_without_cron) = 1620000000"
  using execution_period_for_policy [of daily_cron_iterator policy_10_30 at_09_00 at_08_00]
    execution_period_for_policy [of daily_cron_iterator policy_without_cron at_09_00 at_08_00]
    period_10_30
  by (simp add: freshness_test_defs timedelta_mul_float_def float_0_9_def divide_and_round_def)

section \<open>Properties of the serialization of the cursor\<close>










end
